theory Spec2Isabelle
  imports Complex_Main
begin

section \<open>Conventions\<close>

text \<open>
  The development embeds the stream-based delay wrappers, the BADGE batch strategy and
  the fixed budget manager of scikit-activeml. Python floats are idealised as
  \<^typ>\<open>real\<close>, Python ints as \<^typ>\<open>int\<close> or \<^typ>\<open>nat\<close> (counts and indices),
  NumPy arrays as lists. An exception is a value \<open>Inl e\<close> of a sum type; a method that
  mutates \<open>self\<close> takes the state and returns the new one.
\<close>

section \<open>Python and NumPy values\<close>

text \<open>The exception classes the embedded code raises.\<close>

datatype error = TypeError | ValueError | IndexError | AttributeError | NameError

text \<open>
  A configuration value as the constructor stores it: the wrappers keep \<open>w_train\<close>, \<open>K\<close> and
  \<open>delay_prior\<close> unchecked until \<open>query\<close> validates them. Attributes that Python spells
  with a trailing underscore (\<open>clf_\<close>, \<open>base_query_strategy_\<close>, \<open>random_state_\<close>) carry a
  prime here.
\<close>

datatype pyval = PyNone | PyBool bool | PyInt int | PyFloat real | PyStr string

text \<open>The number a value stands for in arithmetic (\<open>bool\<close> is a subclass of \<open>int\<close>).\<close>

fun py_number :: "pyval \<Rightarrow> real option" where
  "py_number (PyBool b) = Some (if b then 1 else 0)"
| "py_number (PyInt k) = Some (of_int k)"
| "py_number (PyFloat x) = Some x"
| "py_number PyNone = None"
| "py_number (PyStr s) = None"

text \<open>\<open>isinstance(v, int)\<close> and \<open>isinstance(v, float)\<close>.\<close>

fun isinstance_int :: "pyval \<Rightarrow> bool" where
  "isinstance_int (PyBool b) = True"
| "isinstance_int (PyInt k) = True"
| "isinstance_int v = False"

fun isinstance_float :: "pyval \<Rightarrow> bool" where
  "isinstance_float (PyFloat x) = True"
| "isinstance_float v = False"

text \<open>Sequencing of computations that may raise.\<close>

definition ebind :: "error + 'a \<Rightarrow> ('a \<Rightarrow> error + 'b) \<Rightarrow> error + 'b" where
  "ebind m f = (case m of Inl e \<Rightarrow> Inl e | Inr v \<Rightarrow> f v)"

text \<open>
  A float as NumPy computes it where a division can meet a zero divisor: \<open>0/0\<close> is \<open>nan\<close>
  and \<open>x/0\<close> is an infinity (a warning, no exception).
\<close>

datatype np_float = Num real | NaN | PosInf | NegInf

definition np_true_divide :: "real \<Rightarrow> real \<Rightarrow> np_float" where
  "np_true_divide a b =
     (if b \<noteq> 0 then Num (a / b)
      else if a = 0 then NaN
      else if a > 0 then PosInf else NegInf)"

text \<open>The sum of a row of floats, when every entry is a number.\<close>

fun num_sum :: "np_float list \<Rightarrow> real option" where
  "num_sum [] = Some 0"
| "num_sum (Num x # ps) = (case num_sum ps of Some s \<Rightarrow> Some (x + s) | None \<Rightarrow> None)"
| "num_sum (p # ps) = None"

text \<open>
  \<open>a[bmask]\<close> for a boolean mask: NumPy raises \<open>IndexError\<close> unless the mask is as long as
  the array.
\<close>

definition bool_index :: "'a list \<Rightarrow> bool list \<Rightarrow> error + 'a list" where
  "bool_index a bmask =
     (if length bmask = length a then Inr (map fst (filter snd (zip a bmask)))
      else Inl IndexError)"

text \<open>\<open>a[i]\<close> for an integer position inside \<open>enumerate\<close>: \<open>IndexError\<close> when out of range.\<close>

definition index :: "'a list \<Rightarrow> nat \<Rightarrow> error + 'a" where
  "index a i = (if i < length a then Inr (a ! i) else Inl IndexError)"

text \<open>
  \<open>np.logical_and(a, b)\<close> on one-dimensional arrays: elementwise, an array of length one is
  broadcast, any other mismatch of lengths raises \<open>ValueError\<close>.
\<close>

definition np_logical_and :: "bool list \<Rightarrow> bool list \<Rightarrow> error + bool list" where
  "np_logical_and a b =
     (if length a = length b then Inr (map2 (\<and>) a b)
      else if length a = 1 then Inr (map (\<lambda>v. hd a \<and> v) b)
      else if length b = 1 then Inr (map (\<lambda>v. v \<and> hd b) a)
      else Inl ValueError)"

text \<open>
  \<open>a[bmask] = v\<close> for a scalar \<open>v\<close> and \<open>a[bmask] = vs\<close> for an array \<open>vs\<close>, on a copy of
  \<open>a\<close>. The mask must be as long as \<open>a\<close> (\<open>IndexError\<close>) and \<open>vs\<close> must have one entry for
  every \<open>True\<close> of the mask, or a single entry that is broadcast (\<open>ValueError\<close>).
\<close>

definition mask_assign_scalar :: "'a list \<Rightarrow> bool list \<Rightarrow> 'a \<Rightarrow> error + 'a list" where
  "mask_assign_scalar a bmask v =
     (if length bmask = length a then Inr (map2 (\<lambda>x m. if m then v else x) a bmask)
      else Inl IndexError)"

fun mask_fill :: "'a list \<Rightarrow> bool list \<Rightarrow> 'a list \<Rightarrow> 'a list" where
  "mask_fill (x # xs) (m # ms) vs =
     (if m then (case vs of [] \<Rightarrow> x # mask_fill xs ms [] | v # vs' \<Rightarrow> v # mask_fill xs ms vs')
      else x # mask_fill xs ms vs)"
| "mask_fill xs ms vs = xs"

definition mask_assign :: "'a list \<Rightarrow> bool list \<Rightarrow> 'a list \<Rightarrow> error + 'a list" where
  "mask_assign a bmask vs =
     (if length bmask \<noteq> length a then Inl IndexError
      else if length vs = length (filter id bmask) then Inr (mask_fill a bmask vs)
      else if length vs = 1 then mask_assign_scalar a bmask (hd vs)
      else Inl ValueError)"

text \<open>
  \<open>np.max([a, b])\<close>: the two arrays are stacked into one two-row array, which needs equal
  lengths, and the maximum is taken over all of its entries; an empty array has no maximum
  (\<open>ValueError\<close> in both cases).
\<close>

definition np_max2 :: "real list \<Rightarrow> real list \<Rightarrow> error + real" where
  "np_max2 a b =
     (if length a \<noteq> length b \<or> a = [] then Inl ValueError
      else Inr (fold max (tl (a @ b)) (hd (a @ b))))"

text \<open>\<open>np.argmax\<close> of a row: the first position of its maximum.\<close>

definition np_argmax :: "nat list \<Rightarrow> error + nat" where
  "np_argmax row =
     (if row = [] then Inl ValueError
      else Inr (hd (filter (\<lambda>i. row ! i = fold max row 0) [0..<length row])))"

text \<open>\<open>np.zeros(n)\<close> for a configuration value \<open>n\<close>.\<close>

fun np_zeros :: "pyval \<Rightarrow> error + real list" where
  "np_zeros (PyInt k) = (if k < 0 then Inl ValueError else Inr (replicate (nat k) 0))"
| "np_zeros (PyBool b) = Inr (replicate (if b then 1 else 0) 0)"
| "np_zeros v = Inl TypeError"

text \<open>\<open>range(n)\<close> for a configuration value \<open>n\<close>: the number of iterations.\<close>

fun py_range :: "pyval \<Rightarrow> error + nat" where
  "py_range (PyInt k) = Inr (nat k)"
| "py_range (PyBool b) = Inr (if b then 1 else 0)"
| "py_range v = Inl TypeError"

text \<open>
  \<open>sampled = np.zeros(n); sampled[indices] = 1\<close>: \<open>IndexError\<close> when a position is out of
  range.
\<close>

definition mark_sampled :: "nat \<Rightarrow> nat list \<Rightarrow> error + real list" where
  "mark_sampled n indices =
     (if \<forall>i \<in> set indices. i < n
      then Inr (map (\<lambda>i. if i \<in> set indices then 1 else 0) [0..<n])
      else Inl IndexError)"


text \<open>
  The \<open>dtype\<close> of an array: boolean, integer, float, or none of these (strings, arbitrary
  objects). The widths of the machine numbers are left out with their overflow and
  rounding.
\<close>

datatype dtype = DBool | DInt | DFloat | DOther

text \<open>
  \<open>a[...] = v\<close> for a float \<open>v\<close>: the entry holds \<open>v\<close> converted to the \<open>dtype\<close> of \<open>a\<close>. An
  integer array keeps the integer part (the conversion of C rounds toward zero), a
  boolean array whether \<open>v\<close> is non-zero.
\<close>

definition np_astype :: "dtype \<Rightarrow> real \<Rightarrow> real" where
  "np_astype d v =
     (case d of
        DInt \<Rightarrow> (if v \<ge> 0 then of_int \<lfloor>v\<rfloor> else of_int \<lceil>v\<rceil>)
      | DBool \<Rightarrow> (if v \<noteq> 0 then 1 else 0)
      | DFloat \<Rightarrow> v
      | DOther \<Rightarrow> v)"

section \<open>The fixed budget manager (\<open>stream/budget_manager/_fixed_budget.py\<close>)\<close>

record FixedBudget =
  budget :: real
  observed_instances :: int
  sampled_instances :: int

text \<open>\<open>FixedBudget.is_budget_left\<close>.\<close>

definition is_budget_left :: "FixedBudget \<Rightarrow> bool" where
  "is_budget_left self =
     (let available_budget =
            of_int (observed_instances self) * budget self - of_int (sampled_instances self)
      in available_budget \<ge> 1)"

text \<open>
  The \<open>for i, utility in enumerate(utilities)\<close> loop of \<open>FixedBudget.sample\<close>. It returns
  the arrays \<open>sampled\<close> and \<open>budget_left\<close> (from position \<open>i\<close> on) with the updated
  manager.
\<close>

fun sample_loop :: "FixedBudget \<Rightarrow> real list \<Rightarrow> bool list \<times> bool list \<times> FixedBudget" where
  "sample_loop self [] = ([], [], self)"
| "sample_loop self (utility # utilities) =
     (let self1 = self\<lparr>observed_instances := observed_instances self + 1\<rparr>;
          bl = is_budget_left self1;
          s = (bl \<and> utility \<ge> 1 - budget self1);
          self2 = self1\<lparr>sampled_instances := sampled_instances self1 + (if s then 1 else 0)\<rparr>
      in case sample_loop self2 utilities of
           (sampled, budget_left, self') \<Rightarrow> (s # sampled, bl # budget_left, self'))"

text \<open>\<open>np.where(sampled)[0]\<close>: the positions that hold \<open>True\<close>, ascending.\<close>

definition np_where :: "bool list \<Rightarrow> nat list" where
  "np_where flags = filter (\<lambda>i. flags ! i) [0..<length flags]"

text \<open>
  \<open>FixedBudget.sample\<close>. The result is \<open>(sampled_indices, budget_left)\<close>; with
  \<open>return_budget_left=False\<close> the caller receives the first component alone.
\<close>

definition sample :: "FixedBudget \<Rightarrow> real list \<Rightarrow> bool \<Rightarrow> (nat list \<times> bool list) \<times> FixedBudget" where
  "sample self utilities simulate =
     (let init_observed_instances = observed_instances self;
          init_sampled_instances = sampled_instances self
      in case sample_loop self utilities of
           (sampled, budget_left, self1) \<Rightarrow>
             (let self2 = (if simulate
                           then self1\<lparr>observed_instances := init_observed_instances,
                                      sampled_instances := init_sampled_instances\<rparr>
                           else self1)
              in ((np_where sampled, budget_left), self2)))"

definition sample_indices :: "FixedBudget \<Rightarrow> real list \<Rightarrow> bool \<Rightarrow> nat list" where
  "sample_indices self utilities simulate = fst (fst (sample self utilities simulate))"


section \<open>Collaborators: classifier, base query strategy, random generator\<close>

text \<open>
  The classifier, the wrapped stream query strategy with its budget manager, and
  NumPy's random generator are not part of the embedded files. Each is a parameter: a
  type of states and a record of its methods, a method taking the state and returning the
  new one. A label is a class index or missing.
\<close>

type_synonym label = "nat option"

record ('x, 'c) classifier =
  fit :: "'c \<Rightarrow> 'x list \<Rightarrow> label list \<Rightarrow> np_float list option \<Rightarrow> 'c"
  predict_freq :: "'c \<Rightarrow> 'x list \<Rightarrow> real list list"
  is_classifier :: "'c \<Rightarrow> bool"
  clone :: "'c \<Rightarrow> 'c"
  PWC :: "int \<Rightarrow> 'c"

text \<open>
  \<open>choice r n\<close> is \<open>random_state_.choice(n)\<close> for a positive \<open>n\<close>; \<open>rvs r pk\<close> is one draw
  from \<open>scipy.stats.rv_discrete(values=(np.arange(len(pk)), pk))\<close> with this generator.
\<close>

record 'r random_state =
  randint :: "'r \<Rightarrow> int \<Rightarrow> int \<times> 'r"
  multinomial :: "'r \<Rightarrow> nat \<Rightarrow> np_float list \<Rightarrow> nat list \<times> 'r"
  choice :: "'r \<Rightarrow> nat \<Rightarrow> nat \<times> 'r"
  rvs :: "'r \<Rightarrow> real list \<Rightarrow> nat \<times> 'r"

text \<open>
  The arguments of the wrappers' \<open>query\<close>, as validation returns them. The arrival times
  have passed \<open>check_array\<close>, which admits finite numbers only and keeps the \<open>dtype\<close> of a
  boolean, integer or float array; the sample weights are converted by \<open>np.array\<close> alone
  and may hold any float.
\<close>

record 'x query_params =
  q_X_cand :: "'x list"
  q_X :: "'x list"
  q_y :: "label list"
  q_tX :: "real list"
  q_ty :: "real list"
  q_tX_cand :: "real list"
  q_ty_cand :: "real list"
  q_acquisitions :: "bool list"
  q_sample_weight :: "np_float list option"
  q_tX_dtype :: dtype
  q_ty_dtype :: dtype
  q_tX_cand_dtype :: dtype

text \<open>
  The keyword arguments of one call of the base strategy's \<open>query\<close>: a single candidate,
  its two arrival times as zero-dimensional arrays. \<open>FuzzyDelaySimulationWrapper\<close> passes
  the acquisition flags under the keyword \<open>aquisitions\<close>.
\<close>

record 'x base_args =
  b_X_cand :: "'x list"
  b_X :: "'x list"
  b_y :: "label list"
  b_tX :: "real list"
  b_ty :: "real list"
  b_tX_cand :: real
  b_ty_cand :: real
  b_acquisitions :: "bool list option"
  b_aquisitions :: "bool list option"
  b_sample_weight :: "np_float list option"

text \<open>
  \<open>bs_query st args simulate\<close> is \<open>query(**args, return_utilities=True, simulate=simulate)\<close>
  and returns \<open>(sampled_indices, utilities)\<close>; \<open>bs_update st X_cand sampled utilities\<close> is
  \<open>update(X_cand, sampled, budget_manager_kwargs=dict(utilities=utilities))\<close>, or
  \<open>update(X_cand, sampled)\<close> when \<open>utilities\<close> is \<open>None\<close>; \<open>bs_budget_sample st utilities
  simulate\<close> is \<open>budget_manager_.sample(utilities, simulate=simulate)\<close>.
\<close>

record ('x, 'b) base_strategy =
  bs_query :: "'b \<Rightarrow> 'x base_args \<Rightarrow> bool \<Rightarrow> (nat list \<times> real list) \<times> 'b"
  bs_update :: "'b \<Rightarrow> 'x list \<Rightarrow> real list \<Rightarrow> real list option \<Rightarrow> 'b"
  bs_budget_sample :: "'b \<Rightarrow> real list \<Rightarrow> bool \<Rightarrow> nat list \<times> 'b"

text \<open>
  What a simulation wrapper keeps between calls: the wrapped strategy (with its budget
  manager), the classifier \<open>clf_\<close> (absent before the first validation) and the
  generator. The constructor's parameters are kept apart, unchanged by every method.
\<close>

record ('b, 'c, 'r) wrapper =
  base_query_strategy' :: 'b
  clf' :: "'c option"
  random_state' :: 'r

record 'c config =
  cfg_w_train :: pyval
  cfg_K :: pyval
  cfg_delay_prior :: pyval
  cfg_clf :: "'c option"


section \<open>Class probabilities of the pending instances (\<open>get_class_probabilities\<close>)\<close>

text \<open>
  \<open>frequencies_w_prior / np.sum(frequencies_w_prior, axis=1, keepdims=True)\<close>, one row at a
  time.
\<close>

definition normalize_row :: "real list \<Rightarrow> np_float list" where
  "normalize_row frequencies_w_prior =
     map (\<lambda>f. np_true_divide f (sum_list frequencies_w_prior)) frequencies_w_prior"

definition class_probabilities :: "real \<Rightarrow> real list list \<Rightarrow> np_float list list" where
  "class_probabilities delay_prior frequencies =
     (let frequencies_w_prior = map (map (\<lambda>f. f + delay_prior)) frequencies
      in map normalize_row frequencies_w_prior)"

text \<open>
  \<open>get_class_probabilities\<close> of both simulation wrappers: the classifier \<open>clf_\<close> is fitted
  again, in place, on \<open>(X, y, sample_weight)\<close>; adding a \<open>delay_prior\<close> that is no number
  raises \<open>TypeError\<close>.
\<close>

definition get_class_probabilities ::
  "('x, 'c) classifier \<Rightarrow> pyval \<Rightarrow> 'c \<Rightarrow> 'x list \<Rightarrow> 'x list \<Rightarrow> label list \<Rightarrow> np_float list option
     \<Rightarrow> (error + np_float list list) \<times> 'c" where
  "get_class_probabilities cl delay_prior self_clf X_B_n X y sample_weight =
     (let pwc = fit cl self_clf X y sample_weight;
          frequencies = predict_freq cl pwc X_B_n
      in (case py_number delay_prior of
            None \<Rightarrow> Inl TypeError
          | Some p \<Rightarrow> Inr (class_probabilities p frequencies), pwc))"

text \<open>
  \<open>_validate_delay_prior\<close>: \<open>check_scalar(delay_prior, "delay_prior", (float, int),
  min_val=0.0)\<close> unless \<open>delay_prior\<close> is \<open>None\<close>; the bound is inclusive.
\<close>

definition validate_delay_prior :: "pyval \<Rightarrow> error + unit" where
  "validate_delay_prior delay_prior =
     (if delay_prior \<noteq> PyNone then
        (if \<not> (isinstance_float delay_prior \<or> isinstance_int delay_prior) then Inl TypeError
         else if the (py_number delay_prior) < 0 then Inl ValueError
         else Inr ())
      else Inr ())"


section \<open>Validation of the arguments of \<open>query\<close>\<close>

text \<open>
  An argument as NumPy sees it after \<open>np.asarray\<close>: its \<open>dtype\<close>, its shape, and whether
  all of its entries are finite.
\<close>

record array_like =
  al_dtype :: dtype
  al_shape :: "nat list"
  al_finite :: bool

text \<open>
  \<open>sklearn.utils.check_array(a, ensure_2d=...)\<close> with its other arguments at their
  defaults (\<open>dtype="numeric"\<close>, \<open>force_all_finite=True\<close>, \<open>allow_nd=False\<close>,
  \<open>ensure_min_samples=1\<close>, \<open>ensure_min_features=1\<close>), in the order of its checks, and
  \<open>_num_samples\<close>, the length that \<open>check_consistent_length\<close> compares.
\<close>

definition num_samples :: "array_like \<Rightarrow> error + nat" where
  "num_samples a = (case al_shape a of [] \<Rightarrow> Inl TypeError | n # ns \<Rightarrow> Inr n)"

definition check_array :: "bool \<Rightarrow> array_like \<Rightarrow> error + unit" where
  "check_array ensure_2d a =
     (if al_dtype a = DOther then Inl ValueError
      else if ensure_2d \<and> length (al_shape a) < 2 then Inl ValueError
      else if length (al_shape a) \<ge> 3 then Inl ValueError
      else if \<not> al_finite a then Inl ValueError
      else ebind (num_samples a) (\<lambda>n.
        if n < 1 then Inl ValueError
        else if length (al_shape a) = 2 \<and> al_shape a ! 1 < 1 then Inl ValueError
        else Inr ()))"

definition check_consistent_length :: "array_like \<Rightarrow> array_like \<Rightarrow> error + unit" where
  "check_consistent_length a b =
     ebind (num_samples a) (\<lambda>n. ebind (num_samples b) (\<lambda>m.
       if n \<noteq> m then Inl ValueError else Inr ()))"

text \<open>The validators of \<open>SingleAnnotStreamBasedQueryStrategyDelayWrapper\<close>.\<close>

definition validate_X_y_sample_weight ::
  "array_like \<Rightarrow> array_like \<Rightarrow> array_like option \<Rightarrow> error + unit" where
  "validate_X_y_sample_weight X y sample_weight =
     ebind (case sample_weight of
              None \<Rightarrow> Inr ()
            | Some sw \<Rightarrow> check_consistent_length sw y) (\<lambda>u.
     ebind (check_array True X) (\<lambda>u.
     check_consistent_length X y))"

definition validate_acquisitions :: "array_like \<Rightarrow> error + unit" where
  "validate_acquisitions acquisitions =
     (if \<not> al_dtype acquisitions = DBool then Inl TypeError else Inr ())"

definition validate_tX_ty :: "array_like \<Rightarrow> array_like \<Rightarrow> error + unit" where
  "validate_tX_ty tX ty =
     ebind (check_array False tX) (\<lambda>u.
     ebind (check_array False ty) (\<lambda>u.
     check_consistent_length tX ty))"

definition validate_tX_cand_ty_cand :: "array_like \<Rightarrow> array_like \<Rightarrow> error + unit" where
  "validate_tX_cand_ty_cand tX_cand ty_cand =
     ebind (check_array False tX_cand) (\<lambda>u.
     ebind (check_array False ty_cand) (\<lambda>u.
     check_consistent_length tX_cand ty_cand))"

text \<open>The arguments of \<open>query\<close> as the caller passes them.\<close>

record raw_params =
  r_X_cand :: array_like
  r_X :: array_like
  r_y :: array_like
  r_tX :: array_like
  r_ty :: array_like
  r_tX_cand :: array_like
  r_ty_cand :: array_like
  r_acquisitions :: array_like
  r_sample_weight :: "array_like option"

text \<open>
  \<open>SingleAnnotStreamBasedQueryStrategyDelayWrapper._validate_data\<close>. Its first two steps,
  \<open>_validate_base_query_strategy\<close> and the \<open>_validate_data\<close> of the wrappers' base class
  (which checks \<open>X_cand\<close>, \<open>return_utilities\<close> and \<open>simulate\<close> and is not among the embedded
  files), enter by their outcome \<open>pre\<close>; the wrapped strategy is taken as created by an
  earlier call.
\<close>

definition validate_data :: "error + unit \<Rightarrow> raw_params \<Rightarrow> error + unit" where
  "validate_data pre a =
     ebind pre (\<lambda>u.
     ebind (validate_X_y_sample_weight (r_X a) (r_y a) (r_sample_weight a)) (\<lambda>u.
     ebind (validate_acquisitions (r_acquisitions a)) (\<lambda>u.
     ebind (validate_tX_ty (r_tX a) (r_ty a)) (\<lambda>u.
     validate_tX_cand_ty_cand (r_tX_cand a) (r_ty_cand a)))))"

text \<open>
  What \<open>check_array(t, ensure_2d=False)\<close> asks of an array of arrival times: numeric, of
  one or two dimensions, finite, with at least one entry along every axis.
\<close>

definition time_array_ok :: "array_like \<Rightarrow> bool" where
  "time_array_ok t =
     (al_dtype t \<noteq> DOther \<and> length (al_shape t) \<in> {1, 2} \<and> al_finite t
      \<and> 0 < hd (al_shape t) \<and> (length (al_shape t) = 2 \<longrightarrow> 0 < al_shape t ! 1))"

text \<open>\<open>ForgettingWrapper._validate_w_train\<close> and \<open>BaggingDelaySimulationWrapper._validate_K\<close>.\<close>

definition validate_w_train :: "pyval \<Rightarrow> error + unit" where
  "validate_w_train w_train =
     (if w_train \<noteq> PyNone then
        (if \<not> (isinstance_float w_train \<or> isinstance_int w_train) then Inl TypeError
         else if the (py_number w_train) < 0 then Inl ValueError
         else Inr ())
      else Inr ())"

definition validate_K :: "pyval \<Rightarrow> error + unit" where
  "validate_K K =
     (if K \<noteq> PyNone then
        (if \<not> isinstance_int K then Inl TypeError
         else if the (py_number K) \<le> 0 then Inl ValueError
         else Inr ())
      else Inr ())"

text \<open>
  \<open>_validate_clf\<close> of both simulation wrappers, on the wrapper's state. \<open>X\<close> and \<open>y\<close> are
  \<open>None\<close> in no call from \<open>query\<close> (\<open>check_array\<close> has rejected that), so this is the first
  branch: \<open>clf_\<close> becomes a new \<open>PWC\<close> seeded from the generator, or a clone of \<open>clf\<close>, and
  is fitted on \<open>(X, y, sample_weight)\<close>; only then a \<open>y\<close> of more than one dimension is
  refused.
\<close>

definition validate_clf ::
  "('x, 'c) classifier \<Rightarrow> 'r random_state \<Rightarrow> 'c config \<Rightarrow> 'x list \<Rightarrow> label list
     \<Rightarrow> np_float list option \<Rightarrow> nat \<Rightarrow> ('b, 'c, 'r) wrapper
     \<Rightarrow> (error + unit) \<times> ('b, 'c, 'r) wrapper" where
  "validate_clf cl rs cfg X y sample_weight y_ndim self =
     (case (case cfg_clf cfg of
              None \<Rightarrow>
                (case randint rs (random_state' self) (2 ^ 31 - 1) of
                   (seed, r1) \<Rightarrow> (Inr (PWC cl seed), self\<lparr>random_state' := r1\<rparr>))
            | Some c \<Rightarrow>
                if is_classifier cl c then (Inr (clone cl c), self)
                else (Inl TypeError, self)) of
        (Inl e, self1) \<Rightarrow> (Inl e, self1)
      | (Inr c, self1) \<Rightarrow>
          (if y_ndim > 1 then Inl ValueError else Inr (),
           self1\<lparr>clf' := Some (fit cl c X y sample_weight)\<rparr>))"


section \<open>\<open>ForgettingWrapper\<close>\<close>

text \<open>
  The training view of one candidate in \<open>ForgettingWrapper.query\<close>: the mask
  \<open>tX >= ty_cand_current - w_train\<close> and the six arrays indexed by it, as the keyword
  arguments of the base strategy's \<open>query\<close>.
\<close>

definition A_n :: "pyval \<Rightarrow> 'x query_params \<Rightarrow> real \<Rightarrow> real \<Rightarrow> 'x \<Rightarrow> error + 'x base_args" where
  "A_n w_train p tX_cand_current ty_cand_current X_cand_current =
     (case py_number w_train of
        None \<Rightarrow> Inl TypeError
      | Some w \<Rightarrow>
          (let tX_in_A_n = map (\<lambda>t. t \<ge> ty_cand_current - w) (q_tX p) in
           ebind (bool_index (q_X p) tX_in_A_n) (\<lambda>A_n_X.
           ebind (bool_index (q_tX p) tX_in_A_n) (\<lambda>A_n_tX.
           ebind (bool_index (q_y p) tX_in_A_n) (\<lambda>A_n_y.
           ebind (bool_index (q_ty p) tX_in_A_n) (\<lambda>A_n_ty.
           ebind (bool_index (q_acquisitions p) tX_in_A_n) (\<lambda>A_n_acquisitions.
           ebind (case q_sample_weight p of
                    None \<Rightarrow> Inr None
                  | Some sw \<Rightarrow> ebind (bool_index sw tX_in_A_n) (\<lambda>v. Inr (Some v)))
             (\<lambda>A_n_sample_weight.
           Inr \<lparr>b_X_cand = [X_cand_current], b_X = A_n_X, b_y = A_n_y, b_tX = A_n_tX,
                b_ty = A_n_ty, b_tX_cand = tX_cand_current, b_ty_cand = ty_cand_current,
                b_acquisitions = Some A_n_acquisitions, b_aquisitions = None,
                b_sample_weight = A_n_sample_weight\<rparr>))))))))"

text \<open>One pass of the candidate loop, and the loop over \<open>enumerate(zip(tX_cand, ty_cand, X_cand))\<close>.\<close>

definition forgetting_step ::
  "('x, 'b) base_strategy \<Rightarrow> pyval \<Rightarrow> 'x query_params \<Rightarrow> bool \<Rightarrow> real \<times> real \<times> 'x
     \<Rightarrow> 'b \<Rightarrow> (error + nat list \<times> real list) \<times> 'b" where
  "forgetting_step bs w_train p simulate cand st =
     (case cand of (tX_cand_current, ty_cand_current, X_cand_current) \<Rightarrow>
        (case A_n w_train p tX_cand_current ty_cand_current X_cand_current of
           Inl e \<Rightarrow> (Inl e, st)
         | Inr view \<Rightarrow>
             (case bs_query bs st view simulate of (r, st1) \<Rightarrow> (Inr r, st1))))"

fun forgetting_loop ::
  "('x, 'b) base_strategy \<Rightarrow> pyval \<Rightarrow> 'x query_params \<Rightarrow> bool \<Rightarrow> nat \<Rightarrow> (real \<times> real \<times> 'x) list
     \<Rightarrow> 'b \<Rightarrow> (error + nat list \<times> real list list) \<times> 'b" where
  "forgetting_loop bs w_train p simulate i [] st = (Inr ([], []), st)"
| "forgetting_loop bs w_train p simulate i (cand # rest) st =
     (case forgetting_step bs w_train p simulate cand st of
        (Inl e, st1) \<Rightarrow> (Inl e, st1)
      | (Inr (sampled_i, utility), st1) \<Rightarrow>
          (case forgetting_loop bs w_train p simulate (Suc i) rest st1 of
             (Inl e, st2) \<Rightarrow> (Inl e, st2)
           | (Inr (sampled_indices, utilities), st2) \<Rightarrow>
               (Inr ((if sampled_i \<noteq> [] then [i] else []) @ sampled_indices,
                     utility # utilities), st2)))"

text \<open>The instances inside the window, by position.\<close>

definition window :: "real list \<Rightarrow> real \<Rightarrow> real \<Rightarrow> nat list" where
  "window tXs ty_cand_current w = filter (\<lambda>j. tXs ! j \<ge> ty_cand_current - w) [0..<length tXs]"


section \<open>\<open>BaggingDelaySimulationWrapper\<close>\<close>

text \<open>
  The pending set of one candidate, as a mask over the training instances:
  \<open>np.logical_and(acquisitions, np.logical_and(ty >= tX_cand_current, ty < ty_cand_current))\<close>.
\<close>

definition map_B_n :: "bool list \<Rightarrow> real list \<Rightarrow> real \<Rightarrow> real \<Rightarrow> error + bool list" where
  "map_B_n acquisitions ty tX_cand_current ty_cand_current =
     (let tX_in_A_geq_n = map (\<lambda>t. t \<ge> tX_cand_current) ty;
          ty_in_A_geq_n = map (\<lambda>t. t < ty_cand_current) ty
      in ebind (np_logical_and tX_in_A_geq_n ty_in_A_geq_n) (\<lambda>inner.
         np_logical_and acquisitions inner))"

text \<open>\<open>[self.random_state_.multinomial(1, p_d) for p_d in probabilities]\<close>.\<close>

fun multinomial_rows :: "'r random_state \<Rightarrow> 'r \<Rightarrow> np_float list list \<Rightarrow> nat list list \<times> 'r" where
  "multinomial_rows rs r [] = ([], r)"
| "multinomial_rows rs r (p_d # ps) =
     (case multinomial rs r 1 p_d of
        (v, r1) \<Rightarrow> (case multinomial_rows rs r1 ps of (vs, r2) \<Rightarrow> (v # vs, r2)))"

text \<open>\<open>np.argmax(rows, axis=1)\<close>; an empty list of rows has no axis 1.\<close>

fun argmax_each :: "nat list list \<Rightarrow> error + nat list" where
  "argmax_each [] = Inr []"
| "argmax_each (row # rows) =
     ebind (np_argmax row) (\<lambda>c. ebind (argmax_each rows) (\<lambda>cs. Inr (c # cs)))"

definition argmax_rows :: "nat list list \<Rightarrow> error + nat list" where
  "argmax_rows rows = (if rows = [] then Inl ValueError else argmax_each rows)"

text \<open>
  \<open>(np.max([ty, tX]) + tX_cand_current) / 2\<close>, which \<open>FuzzyDelaySimulationWrapper\<close> names
  \<open>simulate_ty\<close>: a float. The maximum is a boolean when both arrays are boolean, and so is
  \<open>tX_cand_current\<close> when \<open>tX_cand\<close> is; NumPy's sum of two booleans is their disjunction.
\<close>

definition simulate_ty :: "'x query_params \<Rightarrow> real \<Rightarrow> error + real" where
  "simulate_ty p tX_cand_current =
     ebind (np_max2 (q_ty p) (q_tX p)) (\<lambda>m.
       Inr ((if q_ty_dtype p = DBool \<and> q_tX_dtype p = DBool \<and> q_tX_cand_dtype p = DBool
             then (if m \<noteq> 0 \<or> tX_cand_current \<noteq> 0 then 1 else 0)
             else m + tX_cand_current) / 2))"

text \<open>
  The hypothetical training set of one simulation and the keyword arguments of the base
  query on it: the drawn labels \<open>y_B_n\<close> are written over the pending positions of a copy
  of \<open>y\<close>, and \<open>(np.max([ty, tX]) + tX_cand_current) / 2\<close> over the pending positions of
  \<open>new_ty = np.copy(ty)\<close>, which has the \<open>dtype\<close> of \<open>ty\<close>.
\<close>

definition bagging_hypothetical ::
  "'x query_params \<Rightarrow> nat \<Rightarrow> bool list \<Rightarrow> nat list \<Rightarrow> real \<Rightarrow> error + 'x base_args" where
  "bagging_hypothetical p i bmask y_B_n tX_cand_current =
     ebind (mask_assign (q_y p) bmask (map Some y_B_n)) (\<lambda>new_y.
     ebind (simulate_ty p tX_cand_current) (\<lambda>t.
     ebind (mask_assign_scalar (q_ty p) bmask (np_astype (q_ty_dtype p) t)) (\<lambda>new_ty.
     ebind (index (q_X_cand p) i) (\<lambda>x.
     ebind (index (q_tX_cand p) i) (\<lambda>tXc.
     ebind (index (q_ty_cand p) i) (\<lambda>tyc.
     Inr \<lparr>b_X_cand = [x], b_X = q_X p, b_y = new_y, b_tX = q_tX p, b_ty = new_ty,
          b_tX_cand = tXc, b_ty_cand = tyc, b_acquisitions = Some (q_acquisitions p),
          b_aquisitions = None, b_sample_weight = q_sample_weight p\<rparr>))))))"

text \<open>
  One pass of \<open>for _ in range(self.K)\<close>: a label is drawn for every pending instance, the
  base strategy is queried on the hypothetical set with \<open>simulate=True\<close>, and
  \<open>utilities[0]\<close> is the simulated utility. The pass works on the base strategy and on the
  generator.
\<close>

definition bagging_simulation ::
  "('x, 'b) base_strategy \<Rightarrow> 'r random_state \<Rightarrow> 'x query_params \<Rightarrow> nat \<Rightarrow> bool list
     \<Rightarrow> np_float list list \<Rightarrow> real \<Rightarrow> 'b \<times> 'r \<Rightarrow> (error + real) \<times> 'b \<times> 'r" where
  "bagging_simulation bs rs p i bmask probabilities tX_cand_current st =
     (case st of (b, r) \<Rightarrow>
        (case multinomial_rows rs r probabilities of
           (draws, r1) \<Rightarrow>
             (case ebind (argmax_rows draws) (\<lambda>y_B_n.
                     bagging_hypothetical p i bmask y_B_n tX_cand_current) of
                Inl e \<Rightarrow> (Inl e, b, r1)
              | Inr args \<Rightarrow>
                  (case bs_query bs b args True of
                     ((sampled_i, utilities), b1) \<Rightarrow> (index utilities 0, b1, r1)))))"

text \<open>
  The loop \<open>for _ in range(self.K)\<close> with its accumulator \<open>sum_utilities\<close>, an array of
  \<open>K\<close> entries to each of which \<open>utilities[0]\<close> is added.
\<close>

fun bagging_K_loop ::
  "('x, 'b) base_strategy \<Rightarrow> 'r random_state \<Rightarrow> 'x query_params \<Rightarrow> nat \<Rightarrow> bool list
     \<Rightarrow> np_float list list \<Rightarrow> real \<Rightarrow> nat \<Rightarrow> real list \<Rightarrow> 'b \<times> 'r
     \<Rightarrow> (error + real list) \<times> 'b \<times> 'r" where
  "bagging_K_loop bs rs p i bmask probabilities tXc 0 sum_utilities st = (Inr sum_utilities, st)"
| "bagging_K_loop bs rs p i bmask probabilities tXc (Suc n) sum_utilities st =
     (case bagging_simulation bs rs p i bmask probabilities tXc st of
        (Inl e, st1) \<Rightarrow> (Inl e, st1)
      | (Inr u, st1) \<Rightarrow>
          bagging_K_loop bs rs p i bmask probabilities tXc n (map (\<lambda>s. s + u) sum_utilities) st1)"

text \<open>The keyword arguments of the base query on the unmodified data.\<close>

definition direct_args :: "'x query_params \<Rightarrow> nat \<Rightarrow> error + 'x base_args" where
  "direct_args p i =
     ebind (index (q_X_cand p) i) (\<lambda>x.
     ebind (index (q_tX_cand p) i) (\<lambda>tXc.
     ebind (index (q_ty_cand p) i) (\<lambda>tyc.
     Inr \<lparr>b_X_cand = [x], b_X = q_X p, b_y = q_y p, b_tX = q_tX p, b_ty = q_ty p,
          b_tX_cand = tXc, b_ty_cand = tyc, b_acquisitions = Some (q_acquisitions p),
          b_aquisitions = None, b_sample_weight = q_sample_weight p\<rparr>)))"

text \<open>
  The body of the candidate loop of \<open>BaggingDelaySimulationWrapper.query\<close>: the utility
  appended to \<open>avg_utilities\<close> for candidate \<open>i\<close>. The test \<open>if np.sum(map_B_n)\<close> holds when
  some entry of the mask is \<open>True\<close>. In \<open>sum_utilities / self.K\<close> no entry is
  divided when \<open>K\<close> is zero, the array being empty then.
\<close>

definition bagging_candidate ::
  "('x, 'b) base_strategy \<Rightarrow> ('x, 'c) classifier \<Rightarrow> 'r random_state \<Rightarrow> 'c config
     \<Rightarrow> 'x query_params \<Rightarrow> bool \<Rightarrow> nat \<Rightarrow> real \<Rightarrow> real \<Rightarrow> ('b, 'c, 'r) wrapper
     \<Rightarrow> (error + real) \<times> ('b, 'c, 'r) wrapper" where
  "bagging_candidate bs cl rs cfg p simulate i tX_cand_current ty_cand_current self =
     (case map_B_n (q_acquisitions p) (q_ty p) tX_cand_current ty_cand_current of
        Inl e \<Rightarrow> (Inl e, self)
      | Inr bmask \<Rightarrow>
          if True \<in> set bmask then
            (case bool_index (q_X p) bmask of
               Inl e \<Rightarrow> (Inl e, self)
             | Inr X_B_n \<Rightarrow>
                 (case clf' self of
                    None \<Rightarrow> (Inl AttributeError, self)
                  | Some c \<Rightarrow>
                      (case get_class_probabilities cl (cfg_delay_prior cfg) c X_B_n
                              (q_X p) (q_y p) (q_sample_weight p) of
                         (Inl e, c1) \<Rightarrow> (Inl e, self\<lparr>clf' := Some c1\<rparr>)
                       | (Inr probabilities, c1) \<Rightarrow>
                           (case ebind (np_zeros (cfg_K cfg)) (\<lambda>sum0.
                                   ebind (py_range (cfg_K cfg)) (\<lambda>k. Inr (sum0, k))) of
                              Inl e \<Rightarrow> (Inl e, self\<lparr>clf' := Some c1\<rparr>)
                            | Inr (sum0, k) \<Rightarrow>
                                (case bagging_K_loop bs rs p i bmask probabilities
                                        tX_cand_current k sum0
                                        (base_query_strategy' self, random_state' self) of
                                   (r, b1, r1) \<Rightarrow>
                                     (ebind r (\<lambda>sum_utilities.
                                        index (map (\<lambda>s. s / the (py_number (cfg_K cfg)))
                                                 sum_utilities) 0),
                                      self\<lparr>base_query_strategy' := b1, clf' := Some c1,
                                           random_state' := r1\<rparr>))))))
          else
            (case direct_args p i of
               Inl e \<Rightarrow> (Inl e, self)
             | Inr args \<Rightarrow>
                 (case bs_query bs (base_query_strategy' self) args simulate of
                    ((tmp_sampled_indices, tmp_utilities), b1) \<Rightarrow>
                      (index tmp_utilities 0, self\<lparr>base_query_strategy' := b1\<rparr>))))"

text \<open>The loop over \<open>enumerate(zip(tX_cand, ty_cand))\<close>, collecting \<open>avg_utilities\<close>.\<close>

fun bagging_loop ::
  "('x, 'b) base_strategy \<Rightarrow> ('x, 'c) classifier \<Rightarrow> 'r random_state \<Rightarrow> 'c config
     \<Rightarrow> 'x query_params \<Rightarrow> bool \<Rightarrow> nat \<Rightarrow> (real \<times> real) list \<Rightarrow> ('b, 'c, 'r) wrapper
     \<Rightarrow> (error + real list) \<times> ('b, 'c, 'r) wrapper" where
  "bagging_loop bs cl rs cfg p simulate i [] self = (Inr [], self)"
| "bagging_loop bs cl rs cfg p simulate i ((tXc, tyc) # rest) self =
     (case bagging_candidate bs cl rs cfg p simulate i tXc tyc self of
        (Inl e, self1) \<Rightarrow> (Inl e, self1)
      | (Inr u, self1) \<Rightarrow>
          (case bagging_loop bs cl rs cfg p simulate (Suc i) rest self1 of
             (Inl e, self2) \<Rightarrow> (Inl e, self2)
           | (Inr us, self2) \<Rightarrow> (Inr (u # us), self2)))"

text \<open>
  \<open>BaggingDelaySimulationWrapper.query\<close> after validation: the candidate loop, the
  decision of the budget manager (always with \<open>simulate=True\<close>) and, unless the call is a
  simulation, the update of the base strategy. The result is \<open>(sampled_indices,
  avg_utilities)\<close>.
\<close>

definition bagging_body ::
  "('x, 'b) base_strategy \<Rightarrow> ('x, 'c) classifier \<Rightarrow> 'r random_state \<Rightarrow> 'c config
     \<Rightarrow> 'x query_params \<Rightarrow> bool \<Rightarrow> ('b, 'c, 'r) wrapper
     \<Rightarrow> (error + nat list \<times> real list) \<times> ('b, 'c, 'r) wrapper" where
  "bagging_body bs cl rs cfg p simulate self =
     (case bagging_loop bs cl rs cfg p simulate 0 (zip (q_tX_cand p) (q_ty_cand p)) self of
        (Inl e, self1) \<Rightarrow> (Inl e, self1)
      | (Inr avg_utilities, self1) \<Rightarrow>
          (case bs_budget_sample bs (base_query_strategy' self1) avg_utilities True of
             (sampled_indices, b2) \<Rightarrow>
               (case mark_sampled (length (q_X_cand p)) sampled_indices of
                  Inl e \<Rightarrow> (Inl e, self1\<lparr>base_query_strategy' := b2\<rparr>)
                | Inr sampled \<Rightarrow>
                    (Inr (sampled_indices, avg_utilities),
                     self1\<lparr>base_query_strategy' :=
                       (if \<not> simulate
                        then bs_update bs b2 (q_X_cand p) sampled (Some avg_utilities)
                        else b2)\<rparr>))))"

text \<open>
  For comparison with the accumulator of the loop: the utilities of \<open>n\<close> successive
  simulations, as a list.
\<close>

fun simulated_utilities ::
  "('x, 'b) base_strategy \<Rightarrow> 'r random_state \<Rightarrow> 'x query_params \<Rightarrow> nat \<Rightarrow> bool list
     \<Rightarrow> np_float list list \<Rightarrow> real \<Rightarrow> nat \<Rightarrow> 'b \<times> 'r
     \<Rightarrow> (error + real list) \<times> 'b \<times> 'r" where
  "simulated_utilities bs rs p i bmask probabilities tXc 0 st = (Inr [], st)"
| "simulated_utilities bs rs p i bmask probabilities tXc (Suc n) st =
     (case bagging_simulation bs rs p i bmask probabilities tXc st of
        (Inl e, st1) \<Rightarrow> (Inl e, st1)
      | (Inr u, st1) \<Rightarrow>
          (case simulated_utilities bs rs p i bmask probabilities tXc n st1 of
             (Inl e, st2) \<Rightarrow> (Inl e, st2)
           | (Inr us, st2) \<Rightarrow> (Inr (u # us), st2)))"


section \<open>\<open>FuzzyDelaySimulationWrapper\<close>\<close>

text \<open>The first error of a list of results, or all the values.\<close>

fun collect :: "(error + 'a) list \<Rightarrow> error + 'a list" where
  "collect [] = Inr []"
| "collect (r # rs) = ebind r (\<lambda>v. ebind (collect rs) (\<lambda>vs. Inr (v # vs)))"

text \<open>\<open>probabilities.shape[1]\<close>.\<close>

definition n_columns :: "'a list list \<Rightarrow> error + nat" where
  "n_columns rows = (case rows of [] \<Rightarrow> Inl IndexError | row # _ \<Rightarrow> Inr (length row))"

text \<open>
  The two nested loops over the pending instances and the classes: one pseudo-instance
  \<open>(X_B_n[count], c, tX[map_B_n][count], probabilities[count, c])\<close> for every pair.
\<close>

definition fuzzy_additions ::
  "'x list \<Rightarrow> real list \<Rightarrow> np_float list list \<Rightarrow> nat
     \<Rightarrow> error + ('x \<times> nat \<times> real \<times> np_float) list" where
  "fuzzy_additions X_B_n tX_B_n probabilities n_classes =
     collect (concat (map (\<lambda>count. map (\<lambda>c.
       ebind (index X_B_n count) (\<lambda>x.
       ebind (index tX_B_n count) (\<lambda>t.
       ebind (index probabilities count) (\<lambda>row.
       ebind (index row c) (\<lambda>w. Inr (x, c, t, w)))))) [0..<n_classes]) [0..<length X_B_n]))"

text \<open>
  The augmented training set of a candidate with pending instances and the keyword
  arguments of the base query on it. Every pseudo-instance gets the label arrival time
  \<open>simulate_ty = (np.max([ty, tX]) + tX_cand_current) / 2\<close>; \<open>np.concatenate([ty, add_ty])\<close>
  is a float array whatever the \<open>dtype\<close> of \<open>ty\<close>. Concatenating the two-dimensional \<open>X\<close>
  with an empty list of additions raises \<open>ValueError\<close>; the masked \<open>tX[map_B_n]\<close> is
  evaluated inside the inner loop only.
\<close>

definition fuzzy_hypothetical ::
  "'x query_params \<Rightarrow> nat \<Rightarrow> bool list \<Rightarrow> 'x list \<Rightarrow> np_float list list \<Rightarrow> np_float list \<Rightarrow> real
     \<Rightarrow> error + 'x base_args" where
  "fuzzy_hypothetical p i bmask X_B_n probabilities sample_weight tX_cand_current =
     ebind (simulate_ty p tX_cand_current) (\<lambda>t.
     ebind (if X_B_n = [] then Inr 0 else n_columns probabilities) (\<lambda>n_classes.
     ebind (if n_classes = 0 then Inr [] else bool_index (q_tX p) bmask) (\<lambda>tX_B_n.
     ebind (fuzzy_additions X_B_n tX_B_n probabilities n_classes) (\<lambda>adds.
     ebind (if adds = [] then Inl ValueError else Inr ()) (\<lambda>u.
     ebind (index (q_X_cand p) i) (\<lambda>x.
     ebind (index (q_tX_cand p) i) (\<lambda>tXc.
     ebind (index (q_ty_cand p) i) (\<lambda>tyc.
     Inr \<lparr>b_X_cand = [x],
          b_X = q_X p @ map fst adds,
          b_y = q_y p @ map (\<lambda>a. Some (fst (snd a))) adds,
          b_tX = q_tX p @ map (\<lambda>a. fst (snd (snd a))) adds,
          b_ty = q_ty p @ map (\<lambda>a. t) adds,
          b_tX_cand = tXc, b_ty_cand = tyc, b_acquisitions = None,
          b_aquisitions = Some (q_acquisitions p @ map (\<lambda>a. True) adds),
          b_sample_weight = Some (sample_weight @ map (\<lambda>a. snd (snd (snd a))) adds)\<rparr>))))))))"

text \<open>The keyword arguments of the base query of a candidate without pending instances.\<close>

definition fuzzy_direct_args :: "'x query_params \<Rightarrow> nat \<Rightarrow> np_float list option \<Rightarrow> error + 'x base_args" where
  "fuzzy_direct_args p i sample_weight =
     ebind (index (q_X_cand p) i) (\<lambda>x.
     ebind (index (q_tX_cand p) i) (\<lambda>tXc.
     ebind (index (q_ty_cand p) i) (\<lambda>tyc.
     Inr \<lparr>b_X_cand = [x], b_X = q_X p, b_y = q_y p, b_tX = q_tX p, b_ty = q_ty p,
          b_tX_cand = tXc, b_ty_cand = tyc, b_acquisitions = None,
          b_aquisitions = Some (q_acquisitions p), b_sample_weight = sample_weight\<rparr>)))"

text \<open>
  The body of the candidate loop of \<open>FuzzyDelaySimulationWrapper.query\<close>. The local
  \<open>sample_weight\<close> is rebound to an array of ones by the first candidate with pending
  instances and stays so for the candidates after it; both branches query the base
  strategy with \<open>simulate=True\<close>. The result is \<open>(tmp_sampled_indices, tmp_utilities[0])\<close>.
\<close>

definition fuzzy_candidate ::
  "('x, 'b) base_strategy \<Rightarrow> ('x, 'c) classifier \<Rightarrow> 'c config \<Rightarrow> 'x query_params \<Rightarrow> nat
     \<Rightarrow> real \<Rightarrow> real \<Rightarrow> ('b, 'c, 'r) wrapper \<times> np_float list option
     \<Rightarrow> (error + nat list \<times> real) \<times> ('b, 'c, 'r) wrapper \<times> np_float list option" where
  "fuzzy_candidate bs cl cfg p i tX_cand_current ty_cand_current st =
     (case st of (self, sample_weight) \<Rightarrow>
       (case map_B_n (q_acquisitions p) (q_ty p) tX_cand_current ty_cand_current of
          Inl e \<Rightarrow> (Inl e, st)
        | Inr bmask \<Rightarrow>
            if True \<in> set bmask then
              (case bool_index (q_X p) bmask of
                 Inl e \<Rightarrow> (Inl e, st)
               | Inr X_B_n \<Rightarrow>
                   (case clf' self of
                      None \<Rightarrow> (Inl AttributeError, st)
                    | Some c \<Rightarrow>
                        (case get_class_probabilities cl (cfg_delay_prior cfg) c X_B_n
                                (q_X p) (q_y p) sample_weight of
                           (Inl e, c1) \<Rightarrow> (Inl e, self\<lparr>clf' := Some c1\<rparr>, sample_weight)
                         | (Inr probabilities, c1) \<Rightarrow>
                             (let sw = (case sample_weight of
                                          None \<Rightarrow> replicate (length (q_y p)) (Num 1)
                                        | Some w \<Rightarrow> w)
                              in case fuzzy_hypothetical p i bmask X_B_n probabilities sw
                                        tX_cand_current of
                                   Inl e \<Rightarrow> (Inl e, self\<lparr>clf' := Some c1\<rparr>, Some sw)
                                 | Inr args \<Rightarrow>
                                     (case bs_query bs (base_query_strategy' self) args True of
                                        ((tmp_sampled_indices, tmp_utilities), b1) \<Rightarrow>
                                          (ebind (index tmp_utilities 0) (\<lambda>u.
                                             Inr (tmp_sampled_indices, u)),
                                           self\<lparr>base_query_strategy' := b1, clf' := Some c1\<rparr>,
                                           Some sw))))))
            else
              (case fuzzy_direct_args p i sample_weight of
                 Inl e \<Rightarrow> (Inl e, st)
               | Inr args \<Rightarrow>
                   (case bs_query bs (base_query_strategy' self) args True of
                      ((tmp_sampled_indices, tmp_utilities), b1) \<Rightarrow>
                        (ebind (index tmp_utilities 0) (\<lambda>u. Inr (tmp_sampled_indices, u)),
                         self\<lparr>base_query_strategy' := b1\<rparr>, sample_weight)))))"

text \<open>
  The loop over \<open>enumerate(zip(tX_cand, ty_cand))\<close>: it collects \<open>sampled_indices\<close> and
  \<open>utilities\<close> and leaves \<open>tmp_sampled_indices\<close> as the last candidate set it (unset when
  there was no candidate).
\<close>

fun fuzzy_loop ::
  "('x, 'b) base_strategy \<Rightarrow> ('x, 'c) classifier \<Rightarrow> 'c config \<Rightarrow> 'x query_params \<Rightarrow> nat
     \<Rightarrow> (real \<times> real) list \<Rightarrow> nat list option
     \<Rightarrow> ('b, 'c, 'r) wrapper \<times> np_float list option
     \<Rightarrow> (error + nat list \<times> real list \<times> nat list option)
         \<times> ('b, 'c, 'r) wrapper \<times> np_float list option" where
  "fuzzy_loop bs cl cfg p i [] tmp st = (Inr ([], [], tmp), st)"
| "fuzzy_loop bs cl cfg p i ((tXc, tyc) # rest) tmp st =
     (case fuzzy_candidate bs cl cfg p i tXc tyc st of
        (Inl e, st1) \<Rightarrow> (Inl e, st1)
      | (Inr (tmp_sampled_indices, u), st1) \<Rightarrow>
          (case fuzzy_loop bs cl cfg p (Suc i) rest (Some tmp_sampled_indices) st1 of
             (Inl e, st2) \<Rightarrow> (Inl e, st2)
           | (Inr (indices, us, tmp2), st2) \<Rightarrow>
               (Inr ((if tmp_sampled_indices \<noteq> [] then [i] else []) @ indices, u # us, tmp2),
                st2)))"

text \<open>
  \<open>FuzzyDelaySimulationWrapper.query\<close> after validation. The array \<open>sampled\<close> handed to
  \<open>update\<close> is marked at \<open>tmp_sampled_indices\<close>, the result of the last base query.
\<close>

definition fuzzy_body ::
  "('x, 'b) base_strategy \<Rightarrow> ('x, 'c) classifier \<Rightarrow> 'c config \<Rightarrow> 'x query_params \<Rightarrow> bool
     \<Rightarrow> ('b, 'c, 'r) wrapper \<Rightarrow> (error + nat list \<times> real list) \<times> ('b, 'c, 'r) wrapper" where
  "fuzzy_body bs cl cfg p simulate self =
     (case fuzzy_loop bs cl cfg p 0 (zip (q_tX_cand p) (q_ty_cand p)) None
             (self, q_sample_weight p) of
        (Inl e, self1, sw) \<Rightarrow> (Inl e, self1)
      | (Inr (indices, utilities, tmp), self1, sw) \<Rightarrow>
          (case tmp of
             None \<Rightarrow> (Inl NameError, self1)
           | Some tmp_sampled_indices \<Rightarrow>
               (case mark_sampled (length (q_X_cand p)) tmp_sampled_indices of
                  Inl e \<Rightarrow> (Inl e, self1)
                | Inr sampled \<Rightarrow>
                    (Inr (indices, utilities),
                     self1\<lparr>base_query_strategy' :=
                       (if \<not> simulate
                        then bs_update bs (base_query_strategy' self1) (q_X_cand p) sampled
                               (Some utilities)
                        else base_query_strategy' self1)\<rparr>))))"


section \<open>The \<open>query\<close> methods with their validation\<close>

text \<open>
  Each wrapper's \<open>_validate_data\<close> runs the common validation first and its own checks
  after it. A \<open>query\<close> takes the arguments as passed (\<open>a\<close>, for the validation) and as
  validation returns them (\<open>p\<close>), and returns its result, or the exception raised, with
  the state the wrapper is left in.
\<close>

definition forgetting_validate_data :: "'c config \<Rightarrow> error + unit \<Rightarrow> raw_params \<Rightarrow> error + unit" where
  "forgetting_validate_data cfg pre a =
     ebind (validate_data pre a) (\<lambda>u. validate_w_train (cfg_w_train cfg))"

definition ForgettingWrapper_query ::
  "('x, 'b) base_strategy \<Rightarrow> 'c config \<Rightarrow> error + unit \<Rightarrow> raw_params \<Rightarrow> 'x query_params
     \<Rightarrow> bool \<Rightarrow> ('b, 'c, 'r) wrapper
     \<Rightarrow> (error + nat list \<times> real list list) \<times> ('b, 'c, 'r) wrapper" where
  "ForgettingWrapper_query bs cfg pre a p simulate self =
     (case forgetting_validate_data cfg pre a of
        Inl e \<Rightarrow> (Inl e, self)
      | Inr u \<Rightarrow>
          (case forgetting_loop bs (cfg_w_train cfg) p simulate 0
                  (zip (q_tX_cand p) (zip (q_ty_cand p) (q_X_cand p)))
                  (base_query_strategy' self) of
             (r, b1) \<Rightarrow> (r, self\<lparr>base_query_strategy' := b1\<rparr>)))"

definition bagging_validate_data ::
  "('x, 'c) classifier \<Rightarrow> 'r random_state \<Rightarrow> 'c config \<Rightarrow> error + unit \<Rightarrow> raw_params
     \<Rightarrow> 'x query_params \<Rightarrow> ('b, 'c, 'r) wrapper \<Rightarrow> (error + unit) \<times> ('b, 'c, 'r) wrapper" where
  "bagging_validate_data cl rs cfg pre a p self =
     (case validate_data pre a of
        Inl e \<Rightarrow> (Inl e, self)
      | Inr u \<Rightarrow>
          (case validate_clf cl rs cfg (q_X p) (q_y p) (q_sample_weight p)
                  (length (al_shape (r_y a))) self of
             (Inl e, self1) \<Rightarrow> (Inl e, self1)
           | (Inr u, self1) \<Rightarrow>
               (ebind (validate_delay_prior (cfg_delay_prior cfg)) (\<lambda>u.
                  validate_K (cfg_K cfg)), self1)))"

definition BaggingDelaySimulationWrapper_query ::
  "('x, 'b) base_strategy \<Rightarrow> ('x, 'c) classifier \<Rightarrow> 'r random_state \<Rightarrow> 'c config
     \<Rightarrow> error + unit \<Rightarrow> raw_params \<Rightarrow> 'x query_params \<Rightarrow> bool \<Rightarrow> ('b, 'c, 'r) wrapper
     \<Rightarrow> (error + nat list \<times> real list) \<times> ('b, 'c, 'r) wrapper" where
  "BaggingDelaySimulationWrapper_query bs cl rs cfg pre a p simulate self =
     (case bagging_validate_data cl rs cfg pre a p self of
        (Inl e, self1) \<Rightarrow> (Inl e, self1)
      | (Inr u, self1) \<Rightarrow> bagging_body bs cl rs cfg p simulate self1)"

definition fuzzy_validate_data ::
  "('x, 'c) classifier \<Rightarrow> 'r random_state \<Rightarrow> 'c config \<Rightarrow> error + unit \<Rightarrow> raw_params
     \<Rightarrow> 'x query_params \<Rightarrow> ('b, 'c, 'r) wrapper \<Rightarrow> (error + unit) \<times> ('b, 'c, 'r) wrapper" where
  "fuzzy_validate_data cl rs cfg pre a p self =
     (case validate_data pre a of
        Inl e \<Rightarrow> (Inl e, self)
      | Inr u \<Rightarrow>
          (case validate_clf cl rs cfg (q_X p) (q_y p) (q_sample_weight p)
                  (length (al_shape (r_y a))) self of
             (Inl e, self1) \<Rightarrow> (Inl e, self1)
           | (Inr u, self1) \<Rightarrow> (validate_delay_prior (cfg_delay_prior cfg), self1)))"

definition FuzzyDelaySimulationWrapper_query ::
  "('x, 'b) base_strategy \<Rightarrow> ('x, 'c) classifier \<Rightarrow> 'r random_state \<Rightarrow> 'c config
     \<Rightarrow> error + unit \<Rightarrow> raw_params \<Rightarrow> 'x query_params \<Rightarrow> bool \<Rightarrow> ('b, 'c, 'r) wrapper
     \<Rightarrow> (error + nat list \<times> real list) \<times> ('b, 'c, 'r) wrapper" where
  "FuzzyDelaySimulationWrapper_query bs cl rs cfg pre a p simulate self =
     (case fuzzy_validate_data cl rs cfg pre a p self of
        (Inl e, self1) \<Rightarrow> (Inl e, self1)
      | (Inr u, self1) \<Rightarrow> fuzzy_body bs cl cfg p simulate self1)"

text \<open>\<open>update\<close> of the three wrappers, which passes its arguments on to the base strategy.\<close>

definition wrapper_update ::
  "('x, 'b) base_strategy \<Rightarrow> 'x list \<Rightarrow> real list \<Rightarrow> real list option \<Rightarrow> ('b, 'c, 'r) wrapper
     \<Rightarrow> ('b, 'c, 'r) wrapper" where
  "wrapper_update bs X_cand sampled utilities self =
     self\<lparr>base_query_strategy' := bs_update bs (base_query_strategy' self) X_cand sampled utilities\<rparr>"

text \<open>
  What the wrappers expect of the wrapped strategy: a \<open>query\<close> and a budget manager's
  \<open>sample\<close> with \<open>simulate=True\<close> leave it as it was.
\<close>

definition honours_simulate :: "('x, 'b) base_strategy \<Rightarrow> bool" where
  "honours_simulate bs =
     ((\<forall>st args. snd (bs_query bs st args True) = st)
      \<and> (\<forall>st utilities. snd (bs_budget_sample bs st utilities True) = st))"

text \<open>Every candidate of the call has a pending instance.\<close>

definition all_pending :: "'x query_params \<Rightarrow> bool" where
  "all_pending p =
     (\<forall>c \<in> set (zip (q_tX_cand p) (q_ty_cand p)).
        \<forall>bmask. map_B_n (q_acquisitions p) (q_ty p) (fst c) (snd c) = Inr bmask
                  \<longrightarrow> True \<in> set bmask)"


section \<open>The BADGE batch strategy (\<open>pool/_badge.py\<close>)\<close>

text \<open>
  The Euclidean distance of two embeddings, and for every row of \<open>X\<close> the distance to
  its nearest row of \<open>Y\<close>: the second result of \<open>pairwise_distances_argmin_min(X, Y)\<close>.
\<close>

definition euclidean :: "real list \<Rightarrow> real list \<Rightarrow> real" where
  "euclidean u v = sqrt (sum_list (map2 (\<lambda>a b. (a - b)\<^sup>2) u v))"

definition min_distances :: "real list list \<Rightarrow> real list list \<Rightarrow> real list" where
  "min_distances X Y =
     map (\<lambda>x. fold min (tl (map (euclidean x) Y)) (hd (map (euclidean x) Y))) X"

text \<open>\<open>np.minimum(a, b)\<close> on one-dimensional arrays.\<close>

definition np_minimum :: "real list \<Rightarrow> real list \<Rightarrow> error + real list" where
  "np_minimum a b =
     (if length a = length b then Inr (map2 min a b)
      else if length a = 1 then Inr (map (\<lambda>v. min (hd a) v) b)
      else if length b = 1 then Inr (map (\<lambda>v. min v (hd b)) a)
      else Inl ValueError)"

text \<open>\<open>_d_probability\<close>. The result is \<open>(probability, is_randomized)\<close>.\<close>

definition d_probability ::
  "real list list \<Rightarrow> nat list \<Rightarrow> real list option \<Rightarrow> error + real list \<times> bool" where
  "d_probability g_x query_indicies d_latest =
     (if length query_indicies = 0 then Inr (replicate (length g_x) 1, True)
      else
        ebind (collect (map (index g_x) query_indicies)) (\<lambda>g_query_indicies.
        ebind (case d_latest of
                 None \<Rightarrow> Inr (min_distances g_x g_query_indicies)
               | Some d \<Rightarrow> np_minimum d (min_distances g_x g_query_indicies)) (\<lambda>D.
        (let D2 = map (\<lambda>d. d\<^sup>2) D;
             D2_sum = sum_list D2
         in if D2_sum = 0 then Inr (replicate (length g_x) 1, True)
            else Inr (map (\<lambda>d. d / D2_sum) D2, False)))))"

text \<open>
  \<open>a[indices] = vs\<close> and \<open>a[indices] = v\<close> on a row of the utilities; an entry of the row is
  a probability or \<open>nan\<close> (\<open>None\<close>).
\<close>

definition fancy_assign :: "'a list \<Rightarrow> nat list \<Rightarrow> 'a list \<Rightarrow> error + 'a list" where
  "fancy_assign a indices vs =
     (if \<exists>i \<in> set indices. i \<ge> length a then Inl IndexError
      else if length vs = length indices
        then Inr (fold (\<lambda>(i, v) acc. acc[i := v]) (zip indices vs) a)
      else if length vs = 1
        then Inr (fold (\<lambda>i acc. acc[i := hd vs]) indices a)
      else Inl ValueError)"

text \<open>
  One round of the batch loop of \<open>Badge.query\<close>. The loop keeps the list \<open>D_p\<close> of the
  probability vectors of the rounds so far, the position \<open>idx_in_unlbld\<close> drawn last, the
  indices selected so far and the generator; a round returns the row of utilities it
  recorded with the new values of these.
\<close>

definition badge_round ::
  "'r random_state \<Rightarrow> real list list \<Rightarrow> nat list \<Rightarrow> nat \<Rightarrow> nat
     \<Rightarrow> real list list \<times> nat \<times> nat list \<times> 'r
     \<Rightarrow> error + real option list \<times> real list list \<times> nat \<times> nat list \<times> 'r" where
  "badge_round rs g_x unlbld_mapping n_samples i st =
     (case st of (D_p, idx_in_unlbld, query_indicies, r) \<Rightarrow>
        ebind (if i = 0 then d_probability g_x [] None
               else ebind (index D_p (i - 1)) (\<lambda>d_latest.
                      d_probability g_x [idx_in_unlbld] (Some d_latest))) (\<lambda>(d_probas, is_randomized).
        ebind (fancy_assign (replicate n_samples None) unlbld_mapping (map Some d_probas)) (\<lambda>row1.
        ebind (fancy_assign row1 query_indicies [None]) (\<lambda>row2.
        ebind (if is_randomized
               then (if length g_x = 0 then Inl ValueError else Inr (choice rs r (length g_x)))
               else Inr (rvs rs r d_probas)) (\<lambda>(idx_new, r1).
        ebind (index unlbld_mapping idx_new) (\<lambda>idx.
        Inr (row2, D_p @ [d_probas], idx_new, query_indicies @ [idx], r1)))))))"

text \<open>\<open>for i in range(batch_size)\<close>, from round \<open>i\<close> with \<open>n\<close> rounds left.\<close>

fun badge_loop ::
  "'r random_state \<Rightarrow> real list list \<Rightarrow> nat list \<Rightarrow> nat \<Rightarrow> nat \<Rightarrow> nat
     \<Rightarrow> real list list \<times> nat \<times> nat list \<times> 'r
     \<Rightarrow> error + real option list list \<times> nat list \<times> 'r" where
  "badge_loop rs g_x unlbld_mapping n_samples i 0 st =
     (case st of (D_p, idx_in_unlbld, query_indicies, r) \<Rightarrow> Inr ([], query_indicies, r))"
| "badge_loop rs g_x unlbld_mapping n_samples i (Suc n) st =
     ebind (badge_round rs g_x unlbld_mapping n_samples i st) (\<lambda>(row, st1).
     ebind (badge_loop rs g_x unlbld_mapping n_samples (Suc i) n st1) (\<lambda>(rows, res).
     Inr (row # rows, res)))"

text \<open>
  The candidates of a pool query: none given, indices into \<open>X\<close>, or feature vectors.
\<close>

datatype candidates = CandNone | CandIndices "nat list" | CandFeatures "real list list"

text \<open>\<open>unlabeled_indices(y)\<close>: the positions of the missing labels.\<close>

definition unlabeled_indices :: "label list \<Rightarrow> nat list" where
  "unlabeled_indices y = filter (\<lambda>i. y ! i = None) [0..<length y]"

text \<open>
  Modelled from the spec: \<open>_transform_candidates\<close> of the pool strategies' base class,
  which is not among the embedded files. It returns the candidates' features and their
  mapping into \<open>X\<close>: the unlabeled samples when no candidates are given, the samples at
  the given indices, or the given feature vectors without a mapping.
\<close>

definition transform_candidates ::
  "candidates \<Rightarrow> real list list \<Rightarrow> label list \<Rightarrow> error + real list list \<times> nat list option" where
  "transform_candidates cands X y =
     (case cands of
        CandNone \<Rightarrow>
          ebind (collect (map (index X) (unlabeled_indices y))) (\<lambda>X_cand.
            Inr (X_cand, Some (unlabeled_indices y)))
      | CandIndices mapping \<Rightarrow>
          ebind (collect (map (index X) mapping)) (\<lambda>X_cand. Inr (X_cand, Some mapping))
      | CandFeatures X_cand \<Rightarrow> Inr (X_cand, None))"

text \<open>
  The classifier of a pool query, cloned and fitted on \<open>(X, y)\<close>: \<open>predict_proba fitted Xq\<close>
  returns the class probabilities and, for \<open>return_embeddings=True\<close>, the embeddings.
\<close>

record 'f pool_classifier =
  fit_pool :: "real list list \<Rightarrow> label list \<Rightarrow> 'f"
  predict_proba :: "'f \<Rightarrow> real list list \<Rightarrow> real list list"
  predict_embeddings :: "'f \<Rightarrow> real list list \<Rightarrow> real list list"

text \<open>\<open>g_x = (p_max - 1) * X_emb\<close>, \<open>p_max\<close> the largest class probability of each row.\<close>

definition gradient_embedding :: "real list list \<Rightarrow> real list list \<Rightarrow> real list list" where
  "gradient_embedding probas X_emb =
     map2 (\<lambda>pr x. map (\<lambda>v. (fold max (tl pr) (hd pr) - 1) * v) x) probas X_emb"

text \<open>
  \<open>Badge.query\<close> after the validation of its arguments. The result is \<open>(query_indicies,
  utilities)\<close>, of which \<open>return_utilities=False\<close> keeps the first.
\<close>

definition badge_query ::
  "'f pool_classifier \<Rightarrow> 'r random_state \<Rightarrow> real list list \<Rightarrow> label list \<Rightarrow> candidates \<Rightarrow> nat
     \<Rightarrow> bool \<Rightarrow> 'r \<Rightarrow> error + (nat list \<times> real option list list) \<times> 'r" where
  "badge_query clf rs X y cands batch_size return_embeddings r =
     ebind (transform_candidates cands X y) (\<lambda>(X_cand, mapping).
     (let fitted = fit_pool clf X y in
      ebind (case cands of
               CandNone \<Rightarrow> Inr (X_cand, the mapping)
             | CandIndices ix \<Rightarrow>
                 ebind (collect (map (index y) ix)) (\<lambda>y_mapping.
                 ebind (collect (map (index X_cand) (unlabeled_indices y_mapping))) (\<lambda>X_unlbld.
                 ebind (collect (map (index ix) (unlabeled_indices y_mapping))) (\<lambda>unlbld_mapping.
                 Inr (X_unlbld, unlbld_mapping))))
             | CandFeatures C \<Rightarrow> Inr (X_cand, [0..<length X_cand])) (\<lambda>(X_unlbld, unlbld_mapping).
      (let probas = predict_proba clf fitted X_unlbld;
           X_emb = (if return_embeddings then predict_embeddings clf fitted X_unlbld
                    else X_unlbld);
           g_x = gradient_embedding probas X_emb;
           n_samples = (if mapping \<noteq> None then length X else length X_cand)
       in ebind (badge_loop rs g_x unlbld_mapping n_samples 0 batch_size ([], 0, [], r))
            (\<lambda>(utilities, query_indicies, r1). Inr ((query_indicies, utilities), r1))))))"

text \<open>
  For comparison with the incremental computation: the probability vector recomputed
  directly, the squared distance of every embedding to the nearest of all selected
  embeddings, divided by the sum of these squares.
\<close>

definition nearest_selected_probability :: "real list list \<Rightarrow> nat list \<Rightarrow> real list" where
  "nearest_selected_probability g_x selected =
     (let D2 = map (\<lambda>d. d\<^sup>2) (min_distances g_x (map (\<lambda>s. g_x ! s) selected))
      in map (\<lambda>d. d / sum_list D2) D2)"


section \<open>Concrete collaborators and inputs for the examples\<close>

text \<open>A manager with budget one half that has seen nothing yet.\<close>

definition fb0 :: FixedBudget where
  "fb0 = \<lparr>budget = 1/2, observed_instances = 0, sampled_instances = 0\<rparr>"

text \<open>
  A frequency classifier in the manner of a Parzen window classifier with a constant
  kernel: fitting stores the training set, and the predicted frequency of a class is the
  total weight of the training instances labelled with it.
\<close>

type_synonym 'x memo = "('x list \<times> label list \<times> np_float list option) option"

definition class_counts :: "nat \<Rightarrow> 'x memo \<Rightarrow> real list" where
  "class_counts n_classes c =
     (case c of
        None \<Rightarrow> replicate n_classes 0
      | Some (X, y, sw) \<Rightarrow>
          map (\<lambda>k. sum_list (map (\<lambda>j. if y ! j = Some k
                                           then (case sw of None \<Rightarrow> 1
                                                 | Some w \<Rightarrow> (case w ! j of Num v \<Rightarrow> v | _ \<Rightarrow> 0)) else 0)
                                  [0..<length y]))
              [0..<n_classes])"

definition memo_classifier :: "nat \<Rightarrow> ('x, 'x memo) classifier" where
  "memo_classifier n_classes =
     \<lparr>fit = (\<lambda>c X y sw. Some (X, y, sw)),
      predict_freq = (\<lambda>c Xq. map (\<lambda>x. class_counts n_classes c) Xq),
      is_classifier = (\<lambda>c. True),
      clone = (\<lambda>c. None),
      PWC = (\<lambda>seed. None)\<rparr>"

text \<open>
  A stream strategy over a \<open>FixedBudget\<close> manager: the utility of the candidate is the
  share of labelled training instances, the decision is the manager's, and \<open>update\<close>
  counts the candidates as observed and the sampled ones as sampled.
\<close>

definition labelled_share :: "'x base_args \<Rightarrow> real" where
  "labelled_share args =
     real (length (filter (\<lambda>l. l \<noteq> None) (b_y args))) / (1 + real (length (b_y args)))"

definition budget_strategy :: "('x, FixedBudget) base_strategy" where
  "budget_strategy =
     \<lparr>bs_query = (\<lambda>st args simulate.
         (let utilities = map (\<lambda>x. labelled_share args) (b_X_cand args)
          in case sample st utilities simulate of
               ((indices, budget_left), st1) \<Rightarrow> ((indices, utilities), st1))),
      bs_update = (\<lambda>st X_cand sampled utilities.
         st\<lparr>observed_instances := observed_instances st + int (length sampled),
            sampled_instances := sampled_instances st + int (length (filter (\<lambda>s. s \<noteq> 0) sampled))\<rparr>),
      bs_budget_sample = (\<lambda>st utilities simulate.
         (case sample st utilities simulate of ((indices, budget_left), st1) \<Rightarrow> (indices, st1)))\<rparr>"

text \<open>
  A generator whose state counts the draws made: \<open>randint\<close> returns the count, a
  multinomial draw of one trial and a draw from a discrete distribution fall on the first
  outcome of positive probability, and \<open>choice\<close> returns \<open>0\<close>.
\<close>

definition first_positive :: "np_float list \<Rightarrow> nat" where
  "first_positive pvals =
     (case filter (\<lambda>i. case pvals ! i of Num p \<Rightarrow> p > 0 | _ \<Rightarrow> False) [0..<length pvals] of
        [] \<Rightarrow> length pvals - 1
      | i # _ \<Rightarrow> i)"

definition counting_generator :: "nat random_state" where
  "counting_generator =
     \<lparr>randint = (\<lambda>r high. (int r, Suc r)),
      multinomial = (\<lambda>r n pvals.
         (map (\<lambda>i. if i = first_positive pvals then n else 0) [0..<length pvals], Suc r)),
      choice = (\<lambda>r n. (0, Suc r)),
      rvs = (\<lambda>r pk. (first_positive (map Num pk), Suc r))\<rparr>"

text \<open>
  Three training instances with given candidates, and the case \<open>p0\<close> of two candidates: for
  the first candidate the second and the third instance are pending, for the second
  candidate none is. In \<open>p1\<close> the first candidate is the only one.
\<close>

definition p_with :: "nat list \<Rightarrow> real list \<Rightarrow> real list \<Rightarrow> nat query_params" where
  "p_with X_cand tX_cand ty_cand =
     \<lparr>q_X_cand = X_cand, q_X = [10, 20, 30], q_y = [Some 0, None, Some 1],
      q_tX = [0, 1, 2], q_ty = [1, 4, 3], q_tX_cand = tX_cand, q_ty_cand = ty_cand,
      q_acquisitions = [True, True, True], q_sample_weight = Some [Num 1, Num 1, Num 1],
      q_tX_dtype = DInt, q_ty_dtype = DInt, q_tX_cand_dtype = DInt\<rparr>"

definition p0 :: "nat query_params" where
  "p0 = \<lparr>q_X_cand = [40, 50], q_X = [10, 20, 30], q_y = [Some 0, None, Some 1],
         q_tX = [0, 1, 2], q_ty = [1, 4, 3], q_tX_cand = [3, 10], q_ty_cand = [5, 11],
         q_acquisitions = [True, True, True], q_sample_weight = Some [Num 1, Num 1, Num 1],
      q_tX_dtype = DInt, q_ty_dtype = DInt, q_tX_cand_dtype = DInt\<rparr>"





definition p1 :: "nat query_params" where
  "p1 = p_with [40] [3] [5]"

text \<open>A wrapper with a fitted classifier, and a configuration with two simulations.\<close>

definition w0 :: "(FixedBudget, nat memo, nat) wrapper" where
  "w0 = \<lparr>base_query_strategy' = fb0, clf' = Some (Some ([10], [Some 0], None)),
          random_state' = 0\<rparr>"

definition cfg0 :: "nat memo config" where
  "cfg0 = \<lparr>cfg_w_train = PyInt 3, cfg_K = PyInt 2, cfg_delay_prior = PyFloat (1/1000),
            cfg_clf = None\<rparr>"

text \<open>The keyword arguments of the base query for the second candidate of \<open>p0\<close>.\<close>

definition dir0 :: "nat base_args" where
  "dir0 = \<lparr>b_X_cand = [50], b_X = [10, 20, 30], b_y = [Some 0, None, Some 1],
           b_tX = [0, 1, 2], b_ty = [1, 4, 3], b_tX_cand = 10, b_ty_cand = 11,
           b_acquisitions = Some [True, True, True], b_aquisitions = None,
           b_sample_weight = Some [Num 1, Num 1, Num 1]\<rparr>"

text \<open>
  Two pool classifiers: one that knows a single class, so that every instance has the class
  probability \<open>1\<close>, and one that is undecided between two classes. Neither exposes an
  embedding of its own.
\<close>

definition one_class_clf :: "unit pool_classifier" where
  "one_class_clf =
     \<lparr>fit_pool = (\<lambda>X y. ()),
      predict_proba = (\<lambda>f Xq. map (\<lambda>x. [1]) Xq),
      predict_embeddings = (\<lambda>f Xq. Xq)\<rparr>"

definition undecided_clf :: "unit pool_classifier" where
  "undecided_clf =
     \<lparr>fit_pool = (\<lambda>X y. ()),
      predict_proba = (\<lambda>f Xq. map (\<lambda>x. [1/2, 1/2]) Xq),
      predict_embeddings = (\<lambda>f Xq. Xq)\<rparr>"

text \<open>
  Arguments as passed: two training instances with a feature matrix of shape \<open>(2, 1)\<close>,
  but arrival times for three; one candidate.
\<close>

definition vec :: "dtype \<Rightarrow> nat \<Rightarrow> array_like" where
  "vec d n = \<lparr>al_dtype = d, al_shape = [n], al_finite = True\<rparr>"

definition mat :: "nat \<Rightarrow> nat \<Rightarrow> array_like" where
  "mat n m = \<lparr>al_dtype = DFloat, al_shape = [n, m], al_finite = True\<rparr>"

definition a_mismatch :: raw_params where
  "a_mismatch = \<lparr>r_X_cand = mat 1 1, r_X = mat 2 1, r_y = vec DFloat 2,
                 r_tX = vec DFloat 3, r_ty = vec DFloat 3,
                 r_tX_cand = vec DFloat 1, r_ty_cand = vec DFloat 1,
                 r_acquisitions = vec DBool 2, r_sample_weight = None\<rparr>"

text \<open>The arguments of \<open>p0\<close> as passed.\<close>

definition a0 :: raw_params where
  "a0 = \<lparr>r_X_cand = mat 2 1, r_X = mat 3 1, r_y = vec DFloat 3,
         r_tX = vec DInt 3, r_ty = vec DInt 3,
         r_tX_cand = vec DInt 2, r_ty_cand = vec DInt 2,
         r_acquisitions = vec DBool 3, r_sample_weight = Some (vec DInt 3)\<rparr>"

text \<open>
  The classifier fitted on the training set of \<open>p0\<close>, and the wrapper \<open>w0\<close> after the
  validation of a call on \<open>p0\<close> and after its first candidate.
\<close>

definition cP :: "nat memo" where
  "cP = Some ([10, 20, 30], [Some 0, None, Some 1], Some [Num 1, Num 1, Num 1])"

definition w1 :: "(FixedBudget, nat memo, nat) wrapper" where
  "w1 = \<lparr>base_query_strategy' = fb0, clf' = Some cP, random_state' = 1\<rparr>"

definition w5 :: "(FixedBudget, nat memo, nat) wrapper" where
  "w5 = \<lparr>base_query_strategy' = fb0, clf' = Some cP, random_state' = 5\<rparr>"

text \<open>The arguments of \<open>p1\<close> as passed.\<close>

definition a1 :: raw_params where
  "a1 = a0\<lparr>r_X_cand := mat 1 1, r_tX_cand := vec DInt 1, r_ty_cand := vec DInt 1\<rparr>"


section \<open>Sequencing\<close>

lemma ebind_Inr [simp]: "ebind (Inr v) f = f v"
  by (simp add: ebind_def)

lemma ebind_Inl [simp]: "ebind (Inl e) f = Inl e"
  by (simp add: ebind_def)

lemma ebind_eq_Inr: "(ebind m f = Inr r) = (\<exists>v. m = Inr v \<and> f v = Inr r)"
  by (cases m) (simp_all add: ebind_def)

lemma ebind_unit_Inr: "(ebind m f = Inr ()) = (\<exists>v. m = Inr v \<and> f v = Inr ())"
  by (cases m) (simp_all add: ebind_def)

lemma ebind_unit_unit: "(ebind m f = Inr ()) = (m = Inr () \<and> f () = Inr ())"
  for m :: "error + unit"
  by (cases m) (simp_all add: ebind_def)


section \<open>Properties of the fixed budget manager\<close>

lemma sample_loop_length:
  "sample_loop self us = (sampled, bl, self') \<Longrightarrow> length sampled = length us"
  by (induction us arbitrary: self sampled bl self')
     (auto simp: Let_def split: prod.splits)

lemma sample_loop_budget:
  "sample_loop self us = (sampled, bl, self') \<Longrightarrow> budget self' = budget self"
  by (induction us arbitrary: self sampled bl self')
     (auto simp: Let_def split: prod.splits)

lemma sample_loop_observed:
  "sample_loop self us = (sampled, bl, self') \<Longrightarrow>
     observed_instances self' = observed_instances self + int (length us)"
  by (induction us arbitrary: self sampled bl self')
     (auto simp: Let_def split: prod.splits)

lemma sample_loop_sampled:
  "sample_loop self us = (sampled, bl, self') \<Longrightarrow>
     sampled_instances self' = sampled_instances self + int (length (filter id sampled))"
  by (induction us arbitrary: self sampled bl self')
     (auto simp: Let_def split: prod.splits)

lemma sample_loop_more:
  "sample_loop self us = (sampled, bl, self') \<Longrightarrow> FixedBudget.more self' = FixedBudget.more self"
  by (induction us arbitrary: self sampled bl self')
     (auto simp: Let_def split: prod.splits)

lemma sample_loop_nth:
  "sample_loop self us = (sampled, bl, self') \<Longrightarrow> i < length us \<Longrightarrow>
     sampled ! i =
       (of_int (observed_instances self + int i + 1) * budget self
          - of_int (sampled_instances self + int (length (filter id (take i sampled)))) \<ge> 1
        \<and> us ! i \<ge> 1 - budget self)"
proof (induction us arbitrary: self sampled bl self' i)
  case Nil
  then show ?case by simp
next
  case (Cons u us)
  let ?self1 = "self\<lparr>observed_instances := observed_instances self + 1\<rparr>"
  let ?s = "is_budget_left ?self1 \<and> u \<ge> 1 - budget ?self1"
  let ?self2 = "?self1\<lparr>sampled_instances := sampled_instances ?self1 + (if ?s then 1 else 0)\<rparr>"
  obtain sampled0 bl0 where rest: "sample_loop ?self2 us = (sampled0, bl0, self')"
    and sampled: "sampled = ?s # sampled0"
    using Cons.prems(1) by (auto simp: Let_def split: prod.splits)
  show ?case
  proof (cases i)
    case 0
    then show ?thesis using sampled by (simp add: is_budget_left_def)
  next
    case (Suc k)
    then have k: "k < length us" using Cons.prems(2) by simp
    from Cons.IH[OF rest k] show ?thesis using Suc sampled
      by (simp add: algebra_simps)
  qed
qed

lemma filter_upt_lt: "i \<le> n \<Longrightarrow> filter (\<lambda>j. j < i) [0..<n] = [0..<i]"
proof (induction n)
  case 0
  then show ?case by simp
next
  case (Suc n)
  then show ?case by (cases "i = Suc n") auto
qed

lemma filter_lt_np_where:
  "i \<le> length flags \<Longrightarrow>
     length (filter (\<lambda>j. j < i) (np_where flags)) = length (filter id (take i flags))"
proof -
  assume i: "i \<le> length flags"
  have "filter (\<lambda>j. j < i) (np_where flags) = filter (\<lambda>k. flags ! k) (filter (\<lambda>j. j < i) [0..<length flags])"
    unfolding np_where_def by (simp add: conj_commute)
  also have "filter (\<lambda>j. j < i) [0..<length flags] = [0..<i]"
    using i by (simp add: filter_upt_lt)
  finally have a: "filter (\<lambda>j. j < i) (np_where flags) = filter (\<lambda>k. flags ! k) [0..<i]" .
  have "take i flags = map (\<lambda>k. flags ! k) [0..<i]"
    using i by (intro nth_equalityI) auto
  then have "filter id (take i flags) = map (\<lambda>k. flags ! k) (filter (\<lambda>k. flags ! k) [0..<i])"
    by (simp add: filter_map comp_def)
  then show ?thesis using a by simp
qed


lemma sample_unfold:
  "sample_loop self us = (sampled, bl, self') \<Longrightarrow>
     sample self us simulate =
       ((np_where sampled, bl),
        if simulate then self'\<lparr>observed_instances := observed_instances self,
                                 sampled_instances := sampled_instances self\<rparr>
        else self')"
  by (simp add: sample_def)

lemma length_np_where: "length (np_where flags) = length (filter id flags)"
proof -
  have "filter (\<lambda>j. j < length flags) (np_where flags) = np_where flags"
    by (rule filter_True) (simp add: np_where_def)
  then show ?thesis
    using filter_lt_np_where[of "length flags" flags] by simp
qed

lemma np_where_sorted_distinct: "sorted (np_where flags) \<and> distinct (np_where flags)"
  by (simp add: np_where_def sorted_wrt_filter)

text \<open>
  Claim C10. \<open>FixedBudget.sample\<close> returns, in ascending order and without repetition,
  exactly the positions \<open>i\<close> of \<open>utilities\<close> at which, with \<open>observed_instances\<close>
  advanced over the positions \<open>0..i\<close> and \<open>sampled_instances\<close> advanced by the positions
  sampled before \<open>i\<close>, \<open>observed_instances * budget - sampled_instances \<ge> 1\<close> and
  \<open>utilities[i] \<ge> 1 - budget\<close>. With \<open>simulate=True\<close> it returns the same indices and
  the manager is left as it was; with \<open>simulate=False\<close> the counter \<open>observed_instances\<close>
  grows by the length of \<open>utilities\<close> and \<open>sampled_instances\<close> by the number of returned
  indices.
\<close>

theorem FixedBudget_sample_spec:
  "(\<forall>i. (i \<in> set (sample_indices self us False)) =
         (i < length us
          \<and> of_int (observed_instances self + int i + 1) * budget self
              - of_int (sampled_instances self
                        + int (length (filter (\<lambda>j. j < i) (sample_indices self us False)))) \<ge> 1
          \<and> us ! i \<ge> 1 - budget self))
   \<and> sorted (sample_indices self us False) \<and> distinct (sample_indices self us False)
   \<and> sample_indices self us True = sample_indices self us False
   \<and> snd (sample self us True) = self
   \<and> observed_instances (snd (sample self us False)) = observed_instances self + int (length us)
   \<and> sampled_instances (snd (sample self us False))
       = sampled_instances self + int (length (sample_indices self us False))
   \<and> budget (snd (sample self us False)) = budget self"
proof -
  obtain sampled bl self' where loop: "sample_loop self us = (sampled, bl, self')"
    by (cases "sample_loop self us") auto
  have len: "length sampled = length us" by (rule sample_loop_length[OF loop])
  have idx: "sample_indices self us simulate = np_where sampled" for simulate
    by (simp add: sample_indices_def sample_unfold[OF loop])
  have mem: "(i \<in> set (np_where sampled)) =
         (i < length us
          \<and> of_int (observed_instances self + int i + 1) * budget self
              - of_int (sampled_instances self
                        + int (length (filter (\<lambda>j. j < i) (np_where sampled)))) \<ge> 1
          \<and> us ! i \<ge> 1 - budget self)" for i
  proof (cases "i < length us")
    case True
    then have "i \<le> length sampled" using len by simp
    from filter_lt_np_where[OF this] sample_loop_nth[OF loop True] True len
    show ?thesis by (simp add: np_where_def)
  next
    case False
    then show ?thesis using len by (simp add: np_where_def)
  qed
  have restore: "snd (sample self us True) = self"
    using sample_loop_budget[OF loop] sample_loop_more[OF loop]
    by (simp add: sample_unfold[OF loop])
  have obs: "observed_instances (snd (sample self us False)) = observed_instances self + int (length us)"
    using sample_loop_observed[OF loop] by (simp add: sample_unfold[OF loop])
  have smp: "sampled_instances (snd (sample self us False))
       = sampled_instances self + int (length (np_where sampled))"
    using sample_loop_sampled[OF loop] by (simp add: sample_unfold[OF loop] length_np_where)
  have bud: "budget (snd (sample self us False)) = budget self"
    using sample_loop_budget[OF loop] by (simp add: sample_unfold[OF loop])
  show ?thesis
    unfolding idx using mem np_where_sorted_distinct restore obs smp bud by blast
qed

lemma sample_fb0_idx: "sample fb0 [1, 1, 1, 1] False = (([1, 3], [False, True, False, True]), \<lparr>budget = 1/2, observed_instances = 4, sampled_instances = 2\<rparr>)"
  by (simp add: sample_def fb0_def is_budget_left_def np_where_def Let_def)

theorem FixedBudget_sample_spec_witness:
  "set (sample_indices fb0 [1, 1, 1, 1] False) = {1, 3}
   \<and> sample_indices fb0 [1, 1, 1, 1] True = [1, 3]
   \<and> snd (sample fb0 [1, 1, 1, 1] True) = fb0
   \<and> observed_instances (snd (sample fb0 [1, 1, 1, 1] False)) = 4
   \<and> sampled_instances (snd (sample fb0 [1, 1, 1, 1] False)) = 2"
  using FixedBudget_sample_spec[of fb0 "[1, 1, 1, 1]"] sample_fb0_idx
  by (simp add: sample_indices_def fb0_def)

section \<open>Properties of the class probabilities\<close>

lemma num_sum_map_Num: "num_sum (map (\<lambda>f. Num (g f)) fs) = Some (sum_list (map g fs))"
  by (induction fs) auto

lemma sum_list_divide: "sum_list (map (\<lambda>f. f / c) row) = sum_list row / (c::real)"
  by (induction row) (auto simp: add_divide_distrib)

lemma normalize_row_pos:
  assumes "sum_list row > (0::real)"
  shows "num_sum (normalize_row row) = Some 1"
proof -
  have "normalize_row row = map (\<lambda>f. Num (f / sum_list row)) row"
    using assms by (simp add: normalize_row_def np_true_divide_def)
  then have "num_sum (normalize_row row) = Some (sum_list (map (\<lambda>f. f / sum_list row) row))"
    by (simp add: num_sum_map_Num)
  also have "sum_list (map (\<lambda>f. f / sum_list row) row) = sum_list row / sum_list row"
    by (rule sum_list_divide)
  finally show ?thesis using assms by simp
qed

lemma sum_list_prior_pos:
  assumes "\<forall>f \<in> set row. (0::real) \<le> f" "0 < p" "row \<noteq> []"
  shows "0 < sum_list (map (\<lambda>f. f + p) row)"
proof (cases row)
  case Nil
  then show ?thesis using assms by simp
next
  case (Cons a as)
  have "0 \<le> sum_list (map (\<lambda>f. f + p) as)"
  proof (rule sum_list_nonneg)
    fix x assume "x \<in> set (map (\<lambda>f. f + p) as)"
    then show "0 \<le> x" using assms Cons by auto
  qed
  moreover have "0 < a + p" using assms Cons by (simp add: add_nonneg_pos)
  ultimately show ?thesis using Cons by simp
qed

lemma class_probabilities_rows_sum_1:
  assumes "0 < delay_prior" "\<forall>row \<in> set frequencies. row \<noteq> [] \<and> (\<forall>f \<in> set row. 0 \<le> f)"
  shows "\<forall>r \<in> set (class_probabilities delay_prior frequencies). num_sum r = Some 1"
  using assms
  by (auto simp: class_probabilities_def Let_def intro!: normalize_row_pos sum_list_prior_pos)

lemma class_probabilities_prior_only:
  assumes "0 < delay_prior" "0 < n"
  shows "class_probabilities delay_prior [replicate n 0] = [replicate n (Num (1 / real n))]"
proof -
  have "sum_list (replicate n delay_prior) = real n * delay_prior"
    by (simp add: sum_list_replicate)
  then show ?thesis
    using assms
    by (simp add: class_probabilities_def normalize_row_def np_true_divide_def Let_def)
qed

text \<open>
  Claim C9 (the code departs from it). With \<open>delay_prior = 0\<close>, which
  \<open>_validate_delay_prior\<close> accepts, and a pending instance whose predicted frequency is
  zero for every class (the classifier has seen no label yet), the normalisation of
  \<open>get_class_probabilities\<close> divides zero by zero: every entry of the row is \<open>nan\<close> and the
  row is no distribution. For a positive \<open>delay_prior\<close> every row sums to one
  (\<open>class_probabilities_rows_sum_1\<close>) and a row of zero frequencies gets the uniform prior
  (\<open>class_probabilities_prior_only\<close>).
\<close>

theorem get_class_probabilities_zero_prior_nan:
  "validate_delay_prior (PyFloat 0) = Inr ()
   \<and> predict_freq (memo_classifier 2) (fit (memo_classifier 2) None [7::nat] [None] None) [7]
       = [[0, 0]]
   \<and> fst (get_class_probabilities (memo_classifier 2) (PyFloat 0) None [7::nat] [7] [None] None)
       = Inr [[NaN, NaN]]
   \<and> num_sum [NaN, NaN] \<noteq> Some 1"
  by (simp add: validate_delay_prior_def get_class_probabilities_def memo_classifier_def
      class_counts_def class_probabilities_def normalize_row_def np_true_divide_def
      eval_nat_numeral)

section \<open>Properties of the validation\<close>

lemma num_samples_Inr: "(num_samples a = Inr n) = (al_shape a \<noteq> [] \<and> hd (al_shape a) = n)"
  by (cases "al_shape a") (auto simp: num_samples_def)

lemma check_consistent_length_iff:
  "(check_consistent_length a b = Inr ())
     = (al_shape a \<noteq> [] \<and> al_shape b \<noteq> [] \<and> hd (al_shape a) = hd (al_shape b))"
  by (auto simp: check_consistent_length_def ebind_unit_Inr num_samples_Inr)

lemma check_array_iff:
  "(check_array ensure_2d a = Inr ())
     = (al_dtype a \<noteq> DOther
        \<and> (if ensure_2d then length (al_shape a) = 2 else length (al_shape a) \<in> {1, 2})
        \<and> al_finite a \<and> 0 < hd (al_shape a)
        \<and> (length (al_shape a) = 2 \<longrightarrow> 0 < al_shape a ! 1))"
proof (cases "al_shape a")
  case Nil
  then show ?thesis by (simp add: check_array_def num_samples_def)
next
  case (Cons n ns)
  then show ?thesis
    by (cases ns; cases "tl ns") (auto simp: check_array_def num_samples_def)
qed

text \<open>
  Claim C8, as amended. When the base strategy and \<open>X_cand\<close> have passed their checks, the
  validation of a delay wrapper's \<open>query\<close> raises nothing exactly when each of \<open>tX\<close>, \<open>ty\<close>,
  \<open>tX_cand\<close>, \<open>ty_cand\<close> is numeric, finite, of one or two dimensions and not empty, \<open>tX\<close> is
  as long as \<open>ty\<close> and \<open>tX_cand\<close> as long as \<open>ty_cand\<close>, \<open>acquisitions\<close> is a boolean array,
  \<open>sample_weight\<close> is absent or as long as \<open>y\<close>, and \<open>X\<close> is a valid two-dimensional array as
  long as \<open>y\<close>; on every other input it raises. The arrival times are compared with each
  other only: their length is not compared with \<open>X\<close> or \<open>X_cand\<close>, nor is the length of
  \<open>acquisitions\<close> checked.
\<close>

theorem validate_data_raises_iff:
  "(validate_data (Inr ()) a = Inr ())
     = (time_array_ok (r_tX a) \<and> time_array_ok (r_ty a)
        \<and> hd (al_shape (r_tX a)) = hd (al_shape (r_ty a))
        \<and> time_array_ok (r_tX_cand a) \<and> time_array_ok (r_ty_cand a)
        \<and> hd (al_shape (r_tX_cand a)) = hd (al_shape (r_ty_cand a))
        \<and> al_dtype (r_acquisitions a) = DBool
        \<and> (case r_sample_weight a of
              None \<Rightarrow> True
            | Some sw \<Rightarrow> al_shape sw \<noteq> [] \<and> hd (al_shape sw) = hd (al_shape (r_y a)))
        \<and> check_array True (r_X a) = Inr ()
        \<and> al_shape (r_y a) \<noteq> [] \<and> hd (al_shape (r_X a)) = hd (al_shape (r_y a)))"
proof -
  have t: "(validate_tX_ty u v = Inr ())
            = (time_array_ok u \<and> time_array_ok v \<and> hd (al_shape u) = hd (al_shape v))" for u v
    by (auto simp: validate_tX_ty_def ebind_unit_Inr check_array_iff check_consistent_length_iff
        time_array_ok_def)
  have tc: "(validate_tX_cand_ty_cand u v = Inr ())
            = (time_array_ok u \<and> time_array_ok v \<and> hd (al_shape u) = hd (al_shape v))" for u v
    by (auto simp: validate_tX_cand_ty_cand_def ebind_unit_Inr check_array_iff
        check_consistent_length_iff time_array_ok_def)
  have acq: "(validate_acquisitions u = Inr ()) = (al_dtype u = DBool)" for u
    by (simp add: validate_acquisitions_def)
  have xy: "(validate_X_y_sample_weight X y sw = Inr ())
            = ((case sw of None \<Rightarrow> True
                | Some w \<Rightarrow> al_shape w \<noteq> [] \<and> hd (al_shape w) = hd (al_shape y))
               \<and> check_array True X = Inr ()
               \<and> al_shape y \<noteq> [] \<and> hd (al_shape X) = hd (al_shape y))" for X y sw
    by (cases sw)
       (auto simp: validate_X_y_sample_weight_def ebind_unit_Inr check_consistent_length_iff
          check_array_iff)
  show ?thesis
    by (simp add: validate_data_def ebind_unit_unit t tc acq xy) blast
qed


theorem validate_data_raises_iff_witness:
  "validate_data (Inr ()) a0 = Inr ()
   \<and> validate_data (Inr ()) (a0\<lparr>r_acquisitions := vec DInt 3\<rparr>) \<noteq> Inr ()
   \<and> validate_data (Inr ()) (a0\<lparr>r_ty := vec DInt 2\<rparr>) \<noteq> Inr ()"
  using validate_data_raises_iff[of a0]
    validate_data_raises_iff[of "a0\<lparr>r_acquisitions := vec DInt 3\<rparr>"]
    validate_data_raises_iff[of "a0\<lparr>r_ty := vec DInt 2\<rparr>"]
  by (simp add: a0_def vec_def mat_def time_array_ok_def check_array_iff)

text \<open>
  Claim C8 as stated fails: arrival times \<open>tX\<close> and \<open>ty\<close> for three instances pass the
  validation together with a feature matrix \<open>X\<close> of two rows.
\<close>

theorem validate_data_length_counterexample:
  "validate_data (Inr ()) a_mismatch = Inr ()
   \<and> num_samples (r_tX a_mismatch) = Inr 3 \<and> num_samples (r_ty a_mismatch) = Inr 3
   \<and> num_samples (r_X a_mismatch) = Inr 2"
  by (simp add: validate_data_def validate_X_y_sample_weight_def validate_acquisitions_def
      validate_tX_ty_def validate_tX_cand_ty_cand_def check_array_def check_consistent_length_def
      num_samples_def a_mismatch_def vec_def mat_def)

section \<open>The example arguments pass the common validation\<close>

lemma validate_a0: "validate_data (Inr ()) a0 = Inr ()"
  by (simp add: validate_data_def validate_X_y_sample_weight_def validate_acquisitions_def
      validate_tX_ty_def validate_tX_cand_ty_cand_def check_array_def check_consistent_length_def
      num_samples_def a0_def vec_def mat_def)

lemma validate_a1: "validate_data (Inr ()) a1 = Inr ()"
  by (simp add: validate_data_def validate_X_y_sample_weight_def validate_acquisitions_def
      validate_tX_ty_def validate_tX_cand_ty_cand_def check_array_def check_consistent_length_def
      num_samples_def a0_def a1_def vec_def mat_def)

section \<open>Properties of \<open>ForgettingWrapper\<close>\<close>

lemma bool_index_nths:
  "length bmask = length a \<Longrightarrow>
     bool_index a bmask = Inr (map (\<lambda>j. a ! j) (filter (\<lambda>j. bmask ! j) [0..<length a]))"
proof (induction a arbitrary: bmask rule: rev_induct)
  case Nil
  then show ?case by (simp add: bool_index_def)
next
  case (snoc x xs)
  then obtain m ms where bmask: "bmask = ms @ [m]" and len: "length ms = length xs"
    by (cases bmask rule: rev_cases) auto
  have ih: "map fst (filter snd (zip xs ms)) = map (\<lambda>j. xs ! j) (filter (\<lambda>j. ms ! j) [0..<length xs])"
    using snoc.IH[OF len] len by (simp add: bool_index_def)
  have a: "map (\<lambda>j. (xs @ [x]) ! j) (filter (\<lambda>j. (ms @ [m]) ! j) [0..<length xs])
         = map (\<lambda>j. xs ! j) (filter (\<lambda>j. ms ! j) [0..<length xs])"
    using len by (intro map_cong filter_cong) (auto simp: nth_append)
  show ?case using ih a len bmask
    by (simp add: bool_index_def nth_append)
qed

lemma bool_index_window:
  assumes "bool_index a (map (\<lambda>t. t \<ge> tyc - w) tXs) = Inr v"
  shows "length a = length tXs \<and> v = map (\<lambda>j. a ! j) (window tXs tyc w)"
proof -
  have len: "length a = length tXs"
    using assms by (auto simp: bool_index_def split: if_splits)
  have "filter (\<lambda>j. map (\<lambda>t. t \<ge> tyc - w) tXs ! j) [0..<length a] = window tXs tyc w"
    unfolding window_def using len by (intro filter_cong) auto
  then show ?thesis
    using bool_index_nths[of "map (\<lambda>t. t \<ge> tyc - w) tXs" a] len assms by simp
qed

lemma A_n_view:
  assumes "A_n w_train p tXc tyc xc = Inr view"
  shows "\<exists>w. py_number w_train = Some w
     \<and> view = \<lparr>b_X_cand = [xc],
          b_X = map (\<lambda>j. q_X p ! j) (window (q_tX p) tyc w),
          b_y = map (\<lambda>j. q_y p ! j) (window (q_tX p) tyc w),
          b_tX = map (\<lambda>j. q_tX p ! j) (window (q_tX p) tyc w),
          b_ty = map (\<lambda>j. q_ty p ! j) (window (q_tX p) tyc w),
          b_tX_cand = tXc, b_ty_cand = tyc,
          b_acquisitions = Some (map (\<lambda>j. q_acquisitions p ! j) (window (q_tX p) tyc w)),
          b_aquisitions = None,
          b_sample_weight = map_option (\<lambda>sw. map (\<lambda>j. sw ! j) (window (q_tX p) tyc w))
                              (q_sample_weight p)\<rparr>"
proof -
  from assms obtain w where w: "py_number w_train = Some w"
    by (auto simp: A_n_def split: option.splits)
  let ?m = "map (\<lambda>t. t \<ge> tyc - w) (q_tX p)"
  from assms w obtain vX vtX vy vty vacq vsw where
    X: "bool_index (q_X p) ?m = Inr vX" and tX: "bool_index (q_tX p) ?m = Inr vtX"
    and y: "bool_index (q_y p) ?m = Inr vy" and ty: "bool_index (q_ty p) ?m = Inr vty"
    and acq: "bool_index (q_acquisitions p) ?m = Inr vacq"
    and sw: "(case q_sample_weight p of None \<Rightarrow> Inr None
              | Some sw \<Rightarrow> ebind (bool_index sw ?m) (\<lambda>v. Inr (Some v))) = Inr vsw"
    and view: "view = \<lparr>b_X_cand = [xc], b_X = vX, b_y = vy, b_tX = vtX, b_ty = vty,
                 b_tX_cand = tXc, b_ty_cand = tyc, b_acquisitions = Some vacq,
                 b_aquisitions = None, b_sample_weight = vsw\<rparr>"
    by (auto simp: A_n_def Let_def ebind_eq_Inr)
  have vsw: "vsw = map_option (\<lambda>sw. map (\<lambda>j. sw ! j) (window (q_tX p) tyc w)) (q_sample_weight p)"
  proof (cases "q_sample_weight p")
    case None
    then show ?thesis using sw by simp
  next
    case (Some s)
    then obtain v where "bool_index s ?m = Inr v" "vsw = Some v"
      using sw by (auto simp: ebind_eq_Inr)
    then show ?thesis using bool_index_window[of s tyc w "q_tX p" v] Some by simp
  qed
  show ?thesis
    using w view vsw bool_index_window[OF X] bool_index_window[OF tX] bool_index_window[OF y]
      bool_index_window[OF ty] bool_index_window[OF acq]
    by simp
qed

lemma forgetting_loop_chain:
  assumes "forgetting_loop bs w_train p simulate i0 cands st = (Inr (sampled, utilities), st')"
  shows "length utilities = length cands
    \<and> set sampled \<subseteq> {i0..<i0 + length cands}
    \<and> (\<exists>sts. length sts = Suc (length cands) \<and> sts ! 0 = st \<and> sts ! length cands = st'
         \<and> (\<forall>k < length cands. \<exists>view sample.
               A_n w_train p (fst (cands ! k)) (fst (snd (cands ! k))) (snd (snd (cands ! k)))
                 = Inr view
             \<and> bs_query bs (sts ! k) view simulate = ((sample, utilities ! k), sts ! Suc k)
             \<and> ((i0 + k \<in> set sampled) = (sample \<noteq> []))))"
  using assms
proof (induction cands arbitrary: i0 st sampled utilities)
  case Nil
  then show ?case by (auto intro: exI[of _ "[st]"])
next
  case (Cons cand rest)
  obtain tXc tyc xc where cand: "cand = (tXc, tyc, xc)" by (cases cand) auto
  from Cons.prems cand obtain view sample u st1 sampled1 utilities1 where
    view: "A_n w_train p tXc tyc xc = Inr view"
    and q: "bs_query bs st view simulate = ((sample, u), st1)"
    and rest: "forgetting_loop bs w_train p simulate (Suc i0) rest st1 = (Inr (sampled1, utilities1), st')"
    and s: "sampled = (if sample \<noteq> [] then [i0] else []) @ sampled1"
    and us: "utilities = u # utilities1"
    by (auto simp: forgetting_step_def split: prod.splits sum.splits)
  from Cons.IH[OF rest] obtain sts where
    len: "length utilities1 = length rest"
    and sub: "set sampled1 \<subseteq> {Suc i0..<Suc i0 + length rest}"
    and sts: "length sts = Suc (length rest)" "sts ! 0 = st1" "sts ! length rest = st'"
    and steps: "\<forall>k < length rest. \<exists>view sample.
               A_n w_train p (fst (rest ! k)) (fst (snd (rest ! k))) (snd (snd (rest ! k)))
                 = Inr view
             \<and> bs_query bs (sts ! k) view simulate = ((sample, utilities1 ! k), sts ! Suc k)
             \<and> ((Suc i0 + k \<in> set sampled1) = (sample \<noteq> []))"
    by blast
  have notin: "i0 \<notin> set sampled1" using sub by auto
  have step: "\<exists>view sample.
               A_n w_train p (fst ((cand # rest) ! k)) (fst (snd ((cand # rest) ! k)))
                   (snd (snd ((cand # rest) ! k))) = Inr view
             \<and> bs_query bs ((st # sts) ! k) view simulate
                 = ((sample, utilities ! k), (st # sts) ! Suc k)
             \<and> ((i0 + k \<in> set sampled) = (sample \<noteq> []))"
    if k: "k < length (cand # rest)" for k
  proof (cases k)
    case 0
    then show ?thesis using view q s us cand sts(2) notin by auto
  next
    case (Suc k')
    then have k': "k' < length rest" using k by simp
    from steps[rule_format, OF k'] obtain view' sample' where
      v: "A_n w_train p (fst (rest ! k')) (fst (snd (rest ! k'))) (snd (snd (rest ! k'))) = Inr view'"
      and q': "bs_query bs (sts ! k') view' simulate = ((sample', utilities1 ! k'), sts ! Suc k')"
      and m: "(Suc i0 + k' \<in> set sampled1) = (sample' \<noteq> [])"
      by blast
    have "(i0 + k \<in> set sampled) = (sample' \<noteq> [])"
      using m s Suc by auto
    then show ?thesis using v q' us Suc by auto
  qed
  have "length (st # sts) = Suc (length (cand # rest)) \<and> (st # sts) ! 0 = st
      \<and> (st # sts) ! length (cand # rest) = st'"
    using sts by simp
  moreover have "length utilities = length (cand # rest)" using us len by simp
  moreover have "set sampled \<subseteq> {i0..<i0 + length (cand # rest)}" using s sub by auto
  ultimately show ?case using step by blast
qed

text \<open>
  Claim C5. In a call of \<open>ForgettingWrapper.query\<close> that returns, there is one utility for
  every candidate, and the candidates are served in their order, each by one call of the
  base strategy's \<open>query\<close> in the state the call before it has left. For candidate \<open>i\<close> the
  training view of that call holds exactly the instances \<open>j\<close> with
  \<open>tX[j] \<ge> ty_cand[i] - w_train\<close>, in their order: features, labels, both arrival-time
  arrays, acquisition flags and sample weights are all read at these same positions. The
  call returns the utility recorded for the candidate, and the candidate is among the
  sampled indices exactly when the call has sampled it.
\<close>

theorem forgetting_view_window:
  assumes "ForgettingWrapper_query bs cfg pre a p simulate self
             = (Inr (sampled_indices, utilities), self')"
  shows "length utilities
           = min (length (q_tX_cand p)) (min (length (q_ty_cand p)) (length (q_X_cand p)))
    \<and> (\<exists>sts. length sts = Suc (length utilities) \<and> sts ! 0 = base_query_strategy' self
         \<and> self' = self\<lparr>base_query_strategy' := sts ! length utilities\<rparr>
         \<and> (\<forall>i < length utilities. \<exists>w sample.
               py_number (cfg_w_train cfg) = Some w
             \<and> set (window (q_tX p) (q_ty_cand p ! i) w)
                 = {j. j < length (q_tX p) \<and> q_tX p ! j \<ge> q_ty_cand p ! i - w}
             \<and> bs_query bs (sts ! i)
                  \<lparr>b_X_cand = [q_X_cand p ! i],
                   b_X = map (\<lambda>j. q_X p ! j) (window (q_tX p) (q_ty_cand p ! i) w),
                   b_y = map (\<lambda>j. q_y p ! j) (window (q_tX p) (q_ty_cand p ! i) w),
                   b_tX = map (\<lambda>j. q_tX p ! j) (window (q_tX p) (q_ty_cand p ! i) w),
                   b_ty = map (\<lambda>j. q_ty p ! j) (window (q_tX p) (q_ty_cand p ! i) w),
                   b_tX_cand = q_tX_cand p ! i, b_ty_cand = q_ty_cand p ! i,
                   b_acquisitions
                     = Some (map (\<lambda>j. q_acquisitions p ! j) (window (q_tX p) (q_ty_cand p ! i) w)),
                   b_aquisitions = None,
                   b_sample_weight
                     = map_option (\<lambda>sw. map (\<lambda>j. sw ! j) (window (q_tX p) (q_ty_cand p ! i) w))
                         (q_sample_weight p)\<rparr>
                  simulate
                 = ((sample, utilities ! i), sts ! Suc i)
             \<and> ((i \<in> set sampled_indices) = (sample \<noteq> []))))"
proof -
  let ?cands = "zip (q_tX_cand p) (zip (q_ty_cand p) (q_X_cand p))"
  from assms obtain b1 where
    loop: "forgetting_loop bs (cfg_w_train cfg) p simulate 0 ?cands (base_query_strategy' self)
             = (Inr (sampled_indices, utilities), b1)"
    and self': "self' = self\<lparr>base_query_strategy' := b1\<rparr>"
    by (auto simp: ForgettingWrapper_query_def split: sum.splits prod.splits)
  from forgetting_loop_chain[OF loop] obtain sts where
    len: "length utilities = length ?cands"
    and sts: "length sts = Suc (length ?cands)" "sts ! 0 = base_query_strategy' self"
      "sts ! length ?cands = b1"
    and steps: "\<forall>k < length ?cands. \<exists>view sample.
               A_n (cfg_w_train cfg) p (fst (?cands ! k)) (fst (snd (?cands ! k)))
                   (snd (snd (?cands ! k))) = Inr view
             \<and> bs_query bs (sts ! k) view simulate = ((sample, utilities ! k), sts ! Suc k)
             \<and> ((0 + k \<in> set sampled_indices) = (sample \<noteq> []))"
    by blast
  have n: "length utilities
           = min (length (q_tX_cand p)) (min (length (q_ty_cand p)) (length (q_X_cand p)))"
    using len by simp
  have each: "\<exists>w sample.
               py_number (cfg_w_train cfg) = Some w
             \<and> set (window (q_tX p) (q_ty_cand p ! i) w)
                 = {j. j < length (q_tX p) \<and> q_tX p ! j \<ge> q_ty_cand p ! i - w}
             \<and> bs_query bs (sts ! i)
                  \<lparr>b_X_cand = [q_X_cand p ! i],
                   b_X = map (\<lambda>j. q_X p ! j) (window (q_tX p) (q_ty_cand p ! i) w),
                   b_y = map (\<lambda>j. q_y p ! j) (window (q_tX p) (q_ty_cand p ! i) w),
                   b_tX = map (\<lambda>j. q_tX p ! j) (window (q_tX p) (q_ty_cand p ! i) w),
                   b_ty = map (\<lambda>j. q_ty p ! j) (window (q_tX p) (q_ty_cand p ! i) w),
                   b_tX_cand = q_tX_cand p ! i, b_ty_cand = q_ty_cand p ! i,
                   b_acquisitions
                     = Some (map (\<lambda>j. q_acquisitions p ! j) (window (q_tX p) (q_ty_cand p ! i) w)),
                   b_aquisitions = None,
                   b_sample_weight
                     = map_option (\<lambda>sw. map (\<lambda>j. sw ! j) (window (q_tX p) (q_ty_cand p ! i) w))
                         (q_sample_weight p)\<rparr>
                  simulate
                 = ((sample, utilities ! i), sts ! Suc i)
             \<and> ((i \<in> set sampled_indices) = (sample \<noteq> []))"
    if i: "i < length utilities" for i
  proof -
    have i': "i < length ?cands" using i len by simp
    then have c: "?cands ! i = (q_tX_cand p ! i, q_ty_cand p ! i, q_X_cand p ! i)"
      by simp
    from steps[rule_format, OF i'] obtain view sample where
      v: "A_n (cfg_w_train cfg) p (q_tX_cand p ! i) (q_ty_cand p ! i) (q_X_cand p ! i) = Inr view"
      and q: "bs_query bs (sts ! i) view simulate = ((sample, utilities ! i), sts ! Suc i)"
      and m: "(i \<in> set sampled_indices) = (sample \<noteq> [])"
      unfolding c by auto
    from A_n_view[OF v] obtain w where w: "py_number (cfg_w_train cfg) = Some w"
      and view: "view = \<lparr>b_X_cand = [q_X_cand p ! i],
                   b_X = map (\<lambda>j. q_X p ! j) (window (q_tX p) (q_ty_cand p ! i) w),
                   b_y = map (\<lambda>j. q_y p ! j) (window (q_tX p) (q_ty_cand p ! i) w),
                   b_tX = map (\<lambda>j. q_tX p ! j) (window (q_tX p) (q_ty_cand p ! i) w),
                   b_ty = map (\<lambda>j. q_ty p ! j) (window (q_tX p) (q_ty_cand p ! i) w),
                   b_tX_cand = q_tX_cand p ! i, b_ty_cand = q_ty_cand p ! i,
                   b_acquisitions
                     = Some (map (\<lambda>j. q_acquisitions p ! j) (window (q_tX p) (q_ty_cand p ! i) w)),
                   b_aquisitions = None,
                   b_sample_weight
                     = map_option (\<lambda>sw. map (\<lambda>j. sw ! j) (window (q_tX p) (q_ty_cand p ! i) w))
                         (q_sample_weight p)\<rparr>"
      by blast
    have mem: "set (window (q_tX p) (q_ty_cand p ! i) w)
                 = {j. j < length (q_tX p) \<and> q_tX p ! j \<ge> q_ty_cand p ! i - w}"
      by (auto simp: window_def)
    show ?thesis
      using w mem q m unfolding view by blast
  qed
  show ?thesis
    using n sts self' each len by (intro conjI exI[of _ sts]) auto
qed

lemma window_p0: "window (q_tX p0) 5 3 = [2]" "window (q_tX p0) 11 3 = []"
  by (simp_all add: window_def p0_def upt_rec)

lemma forgetting_query_p0:
  "ForgettingWrapper_query budget_strategy cfg0 (Inr ()) a0 p0 True w0
     = (Inr ([], [[1/2], [0]]), w0)"
proof -
  have v: "forgetting_validate_data cfg0 (Inr ()) a0 = Inr ()"
    by (simp add: forgetting_validate_data_def validate_a0 validate_w_train_def cfg0_def)
  have z: "zip (q_tX_cand p0) (zip (q_ty_cand p0) (q_X_cand p0)) = [(3, 5, 40), (10, 11, 50)]"
    by (simp add: p0_def)
  have a1: "A_n (PyInt 3) p0 3 5 40 =
     Inr \<lparr>b_X_cand = [40::nat], b_X = [30], b_y = [Some 1], b_tX = [2], b_ty = [3],
          b_tX_cand = 3, b_ty_cand = 5, b_acquisitions = Some [True], b_aquisitions = None,
          b_sample_weight = Some [Num 1]\<rparr>"
    by (simp add: A_n_def p0_def bool_index_def)
  have a2: "A_n (PyInt 3) p0 10 11 50 =
     Inr \<lparr>b_X_cand = [50::nat], b_X = [], b_y = [], b_tX = [], b_ty = [],
          b_tX_cand = 10, b_ty_cand = 11, b_acquisitions = Some [], b_aquisitions = None,
          b_sample_weight = Some []\<rparr>"
    by (simp add: A_n_def p0_def bool_index_def)
  have s: "sample fb0 [u] True = (([], [False]), fb0)" for u
    by (simp add: sample_def fb0_def is_budget_left_def np_where_def Let_def)
  have loop: "forgetting_loop budget_strategy (PyInt 3) p0 True 0 [(3, 5, 40), (10, 11, 50)] fb0
     = (Inr ([], [[1/2], [0]]), fb0)"
    by (simp add: forgetting_step_def a1 a2 budget_strategy_def labelled_share_def s)
  have wt: "cfg_w_train cfg0 = PyInt 3" by (simp add: cfg0_def)
  have b: "base_query_strategy' w0 = fb0" by (simp add: w0_def)
  show ?thesis
    by (simp add: ForgettingWrapper_query_def v z wt loop w0_def del: forgetting_loop.simps)
qed

theorem forgetting_view_window_witness:
  "ForgettingWrapper_query budget_strategy cfg0 (Inr ()) a0 p0 True w0
     = (Inr ([], [[1/2], [0]]), w0)
   \<and> (\<exists>sts sample0 sample1. length sts = 3 \<and> sts ! 0 = fb0
        \<and> bs_query budget_strategy (sts ! 0)
             \<lparr>b_X_cand = [40::nat], b_X = [30], b_y = [Some 1], b_tX = [2], b_ty = [3],
              b_tX_cand = 3, b_ty_cand = 5, b_acquisitions = Some [True], b_aquisitions = None,
              b_sample_weight = Some [Num 1]\<rparr> True = ((sample0, [1/2]), sts ! 1)
        \<and> bs_query budget_strategy (sts ! 1)
             \<lparr>b_X_cand = [50::nat], b_X = [], b_y = [], b_tX = [], b_ty = [],
              b_tX_cand = 10, b_ty_cand = 11, b_acquisitions = Some [], b_aquisitions = None,
              b_sample_weight = Some []\<rparr> True = ((sample1, [0]), sts ! 2)
        \<and> sample0 = [] \<and> sample1 = [])"
proof -
  from forgetting_view_window[OF forgetting_query_p0] obtain sts where
    len: "length sts = Suc (length [[1/2::real], [0]])" and st0: "sts ! 0 = base_query_strategy' w0"
    and steps: "\<forall>i < length [[1/2::real], [0]]. \<exists>w sample.
               py_number (cfg_w_train cfg0) = Some w
             \<and> set (window (q_tX p0) (q_ty_cand p0 ! i) w)
                 = {j. j < length (q_tX p0) \<and> q_tX p0 ! j \<ge> q_ty_cand p0 ! i - w}
             \<and> bs_query budget_strategy (sts ! i)
                  \<lparr>b_X_cand = [q_X_cand p0 ! i],
                   b_X = map (\<lambda>j. q_X p0 ! j) (window (q_tX p0) (q_ty_cand p0 ! i) w),
                   b_y = map (\<lambda>j. q_y p0 ! j) (window (q_tX p0) (q_ty_cand p0 ! i) w),
                   b_tX = map (\<lambda>j. q_tX p0 ! j) (window (q_tX p0) (q_ty_cand p0 ! i) w),
                   b_ty = map (\<lambda>j. q_ty p0 ! j) (window (q_tX p0) (q_ty_cand p0 ! i) w),
                   b_tX_cand = q_tX_cand p0 ! i, b_ty_cand = q_ty_cand p0 ! i,
                   b_acquisitions
                     = Some (map (\<lambda>j. q_acquisitions p0 ! j) (window (q_tX p0) (q_ty_cand p0 ! i) w)),
                   b_aquisitions = None,
                   b_sample_weight
                     = map_option (\<lambda>sw. map (\<lambda>j. sw ! j) (window (q_tX p0) (q_ty_cand p0 ! i) w))
                         (q_sample_weight p0)\<rparr>
                  True
                 = ((sample, [[1/2], [0]] ! i), sts ! Suc i)
             \<and> ((i \<in> set []) = (sample \<noteq> []))"
    by blast
  have c: "q_ty_cand p0 ! 0 = 5" "q_ty_cand p0 ! Suc 0 = 11" "q_tX_cand p0 ! 0 = 3"
    "q_tX_cand p0 ! Suc 0 = 10" "q_X_cand p0 ! 0 = 40" "q_X_cand p0 ! Suc 0 = 50"
    "py_number (cfg_w_train cfg0) = Some 3"
    by (simp_all add: p0_def cfg0_def)
  have s0: "\<exists>sample. bs_query budget_strategy (sts ! 0)
             \<lparr>b_X_cand = [40::nat], b_X = [30], b_y = [Some 1], b_tX = [2], b_ty = [3],
              b_tX_cand = 3, b_ty_cand = 5, b_acquisitions = Some [True], b_aquisitions = None,
              b_sample_weight = Some [Num 1]\<rparr> True = ((sample, [1/2]), sts ! 1) \<and> sample = []"
    using steps[rule_format, of 0] by (simp add: c window_p0) (simp add: p0_def)
  have s1: "\<exists>sample. bs_query budget_strategy (sts ! 1)
             \<lparr>b_X_cand = [50::nat], b_X = [], b_y = [], b_tX = [], b_ty = [],
              b_tX_cand = 10, b_ty_cand = 11, b_acquisitions = Some [], b_aquisitions = None,
              b_sample_weight = Some []\<rparr> True = ((sample, [0]), sts ! 2) \<and> sample = []"
    using steps[rule_format, of "Suc 0"] by (simp add: c window_p0) (simp add: p0_def numeral_2_eq_2)
  have "length sts = 3" "sts ! 0 = fb0" using len st0 by (simp_all add: w0_def)
  then show ?thesis
    using forgetting_query_p0 s0 s1 by blast
qed

section \<open>The label arrival time of simulated instances\<close>













section \<open>Configuration errors\<close>

lemma validate_clf_base:
  "base_query_strategy' (snd (validate_clf cl rs cfg X y sw n self)) = base_query_strategy' self"
  by (auto simp: validate_clf_def split: option.splits prod.splits sum.splits)

lemma validate_clf_bad:
  "cfg_clf cfg = Some c \<Longrightarrow> \<not> is_classifier cl c \<Longrightarrow>
     validate_clf cl rs cfg X y sw n self = (Inl TypeError, self)"
  by (simp add: validate_clf_def)

lemma validate_clf_good:
  "\<not> (\<exists>c. cfg_clf cfg = Some c \<and> \<not> is_classifier cl c) \<Longrightarrow>
     \<exists>c0. clf' (snd (validate_clf cl rs cfg X y sw n self)) = Some (fit cl c0 X y sw)
         \<and> (fst (validate_clf cl rs cfg X y sw n self) = Inr ()
             \<or> fst (validate_clf cl rs cfg X y sw n self) = Inl ValueError)"
  by (cases "cfg_clf cfg")
     (auto simp: validate_clf_def split: prod.splits)

text \<open>
  Claim C7, as amended. When the input arrays pass the common validation, a \<open>query\<close> with
  an invalid configuration raises during validation, before the candidate loop, and the
  wrapped base strategy is untouched: \<open>ForgettingWrapper\<close> for a \<open>w_train\<close> that is not
  \<open>None\<close> and has a wrong type or is negative, both simulation wrappers for a \<open>clf\<close> that is
  no classifier (in these cases the wrapper is left as it was), and, once \<open>clf\<close> is
  accepted, \<open>BaggingDelaySimulationWrapper\<close> for a wrong \<open>delay_prior\<close> or for a \<open>K\<close> that is
  not \<open>None\<close> and has a wrong type or is not positive, \<open>FuzzyDelaySimulationWrapper\<close> for a
  wrong \<open>delay_prior\<close>. In the last two cases the error is raised after \<open>_validate_clf\<close> has
  replaced \<open>clf_\<close> by a classifier fitted on \<open>(X, y, sample_weight)\<close>: the wrapper is left
  in the state \<open>_validate_clf\<close> produced.
\<close>

theorem config_error_raised_by_validation:
  assumes ok: "validate_data pre a = Inr ()"
  shows
  "(cfg_w_train cfg \<noteq> PyNone
      \<and> (\<not> (isinstance_float (cfg_w_train cfg) \<or> isinstance_int (cfg_w_train cfg))
         \<or> the (py_number (cfg_w_train cfg)) < 0)
     \<longrightarrow> (\<exists>e. ForgettingWrapper_query bs cfg pre a p simulate self = (Inl e, self)))
   \<and> ((\<exists>c. cfg_clf cfg = Some c \<and> \<not> is_classifier cl c)
     \<longrightarrow> BaggingDelaySimulationWrapper_query bs cl rs cfg pre a p simulate self
           = (Inl TypeError, self)
         \<and> FuzzyDelaySimulationWrapper_query bs cl rs cfg pre a p simulate self
           = (Inl TypeError, self))
   \<and> (\<not> (\<exists>c. cfg_clf cfg = Some c \<and> \<not> is_classifier cl c)
       \<and> (validate_delay_prior (cfg_delay_prior cfg) \<noteq> Inr ()
          \<or> (cfg_K cfg \<noteq> PyNone
              \<and> (\<not> isinstance_int (cfg_K cfg) \<or> the (py_number (cfg_K cfg)) \<le> 0)))
     \<longrightarrow> (\<exists>e c0. BaggingDelaySimulationWrapper_query bs cl rs cfg pre a p simulate self
             = (Inl e, snd (validate_clf cl rs cfg (q_X p) (q_y p) (q_sample_weight p)
                             (length (al_shape (r_y a))) self))
           \<and> clf' (snd (validate_clf cl rs cfg (q_X p) (q_y p) (q_sample_weight p)
                             (length (al_shape (r_y a))) self))
               = Some (fit cl c0 (q_X p) (q_y p) (q_sample_weight p))
           \<and> base_query_strategy' (snd (validate_clf cl rs cfg (q_X p) (q_y p)
                             (q_sample_weight p) (length (al_shape (r_y a))) self))
               = base_query_strategy' self))
   \<and> (\<not> (\<exists>c. cfg_clf cfg = Some c \<and> \<not> is_classifier cl c)
       \<and> validate_delay_prior (cfg_delay_prior cfg) \<noteq> Inr ()
     \<longrightarrow> (\<exists>e c0. FuzzyDelaySimulationWrapper_query bs cl rs cfg pre a p simulate self
             = (Inl e, snd (validate_clf cl rs cfg (q_X p) (q_y p) (q_sample_weight p)
                             (length (al_shape (r_y a))) self))
           \<and> clf' (snd (validate_clf cl rs cfg (q_X p) (q_y p) (q_sample_weight p)
                             (length (al_shape (r_y a))) self))
               = Some (fit cl c0 (q_X p) (q_y p) (q_sample_weight p))
           \<and> base_query_strategy' (snd (validate_clf cl rs cfg (q_X p) (q_y p)
                             (q_sample_weight p) (length (al_shape (r_y a))) self))
               = base_query_strategy' self))"
proof (intro conjI impI)
  assume "cfg_w_train cfg \<noteq> PyNone
      \<and> (\<not> (isinstance_float (cfg_w_train cfg) \<or> isinstance_int (cfg_w_train cfg))
         \<or> the (py_number (cfg_w_train cfg)) < 0)"
  then have "\<exists>e. validate_w_train (cfg_w_train cfg) = Inl e"
    by (auto simp: validate_w_train_def)
  then show "\<exists>e. ForgettingWrapper_query bs cfg pre a p simulate self = (Inl e, self)"
    by (auto simp: ForgettingWrapper_query_def forgetting_validate_data_def ok)
next
  assume bad: "\<exists>c. cfg_clf cfg = Some c \<and> \<not> is_classifier cl c"
  then obtain c where c: "cfg_clf cfg = Some c" "\<not> is_classifier cl c" by blast
  show "BaggingDelaySimulationWrapper_query bs cl rs cfg pre a p simulate self = (Inl TypeError, self)"
    by (simp add: BaggingDelaySimulationWrapper_query_def bagging_validate_data_def ok
        validate_clf_bad[OF c])
  show "FuzzyDelaySimulationWrapper_query bs cl rs cfg pre a p simulate self = (Inl TypeError, self)"
    by (simp add: FuzzyDelaySimulationWrapper_query_def fuzzy_validate_data_def ok
        validate_clf_bad[OF c])
next
  let ?v = "validate_clf cl rs cfg (q_X p) (q_y p) (q_sample_weight p) (length (al_shape (r_y a))) self"
  assume h: "\<not> (\<exists>c. cfg_clf cfg = Some c \<and> \<not> is_classifier cl c)
       \<and> (validate_delay_prior (cfg_delay_prior cfg) \<noteq> Inr ()
          \<or> (cfg_K cfg \<noteq> PyNone
              \<and> (\<not> isinstance_int (cfg_K cfg) \<or> the (py_number (cfg_K cfg)) \<le> 0)))"
  then have cfgbad: "\<exists>e. ebind (validate_delay_prior (cfg_delay_prior cfg)) (\<lambda>u. validate_K (cfg_K cfg)) = Inl e"
    by (cases "validate_delay_prior (cfg_delay_prior cfg)") (auto simp: validate_K_def)
  from h validate_clf_good[of cfg cl rs "q_X p" "q_y p" "q_sample_weight p" "length (al_shape (r_y a))" self]
  obtain c0 where c0: "clf' (snd ?v) = Some (fit cl c0 (q_X p) (q_y p) (q_sample_weight p))"
    and r: "fst ?v = Inr () \<or> fst ?v = Inl ValueError"
    by blast
  have "\<exists>e. BaggingDelaySimulationWrapper_query bs cl rs cfg pre a p simulate self = (Inl e, snd ?v)"
    using r cfgbad
    by (cases ?v) (auto simp: BaggingDelaySimulationWrapper_query_def bagging_validate_data_def ok)
  with c0 validate_clf_base[of cl rs cfg "q_X p" "q_y p" "q_sample_weight p" "length (al_shape (r_y a))" self]
  show "\<exists>e c0. BaggingDelaySimulationWrapper_query bs cl rs cfg pre a p simulate self = (Inl e, snd ?v)
           \<and> clf' (snd ?v) = Some (fit cl c0 (q_X p) (q_y p) (q_sample_weight p))
           \<and> base_query_strategy' (snd ?v) = base_query_strategy' self"
    by blast
next
  let ?v = "validate_clf cl rs cfg (q_X p) (q_y p) (q_sample_weight p) (length (al_shape (r_y a))) self"
  assume h: "\<not> (\<exists>c. cfg_clf cfg = Some c \<and> \<not> is_classifier cl c)
       \<and> validate_delay_prior (cfg_delay_prior cfg) \<noteq> Inr ()"
  then have cfgbad: "\<exists>e. validate_delay_prior (cfg_delay_prior cfg) = Inl e"
    by (cases "validate_delay_prior (cfg_delay_prior cfg)") auto
  from h validate_clf_good[of cfg cl rs "q_X p" "q_y p" "q_sample_weight p" "length (al_shape (r_y a))" self]
  obtain c0 where c0: "clf' (snd ?v) = Some (fit cl c0 (q_X p) (q_y p) (q_sample_weight p))"
    and r: "fst ?v = Inr () \<or> fst ?v = Inl ValueError"
    by blast
  have "\<exists>e. FuzzyDelaySimulationWrapper_query bs cl rs cfg pre a p simulate self = (Inl e, snd ?v)"
    using r cfgbad
    by (cases ?v) (auto simp: FuzzyDelaySimulationWrapper_query_def fuzzy_validate_data_def ok)
  with c0 validate_clf_base[of cl rs cfg "q_X p" "q_y p" "q_sample_weight p" "length (al_shape (r_y a))" self]
  show "\<exists>e c0. FuzzyDelaySimulationWrapper_query bs cl rs cfg pre a p simulate self = (Inl e, snd ?v)
           \<and> clf' (snd ?v) = Some (fit cl c0 (q_X p) (q_y p) (q_sample_weight p))
           \<and> base_query_strategy' (snd ?v) = base_query_strategy' self"
    by blast
qed


lemma validate_clf_w0:
  "cfg_clf cfg = None \<Longrightarrow>
   validate_clf (memo_classifier 2) counting_generator cfg (q_X p0) (q_y p0)
       (q_sample_weight p0) (length (al_shape (r_y a0))) w0
     = (Inr (), w0\<lparr>clf' := Some (Some ([10, 20, 30], [Some 0, None, Some 1],
                                          Some [Num 1, Num 1, Num 1])),
                    random_state' := 1\<rparr>)"
  by (simp add: validate_clf_def memo_classifier_def counting_generator_def p0_def a0_def
      vec_def w0_def)

theorem config_error_raised_by_validation_witness:
  "(\<exists>e. BaggingDelaySimulationWrapper_query budget_strategy (memo_classifier 2)
           counting_generator (cfg0\<lparr>cfg_K := PyInt 0\<rparr>) (Inr ()) a0 p0 True w0
         = (Inl e, w0\<lparr>clf' := Some (Some ([10, 20, 30], [Some 0, None, Some 1],
                                              Some [Num 1, Num 1, Num 1])),
                        random_state' := 1\<rparr>))
   \<and> (\<exists>e. ForgettingWrapper_query budget_strategy (cfg0\<lparr>cfg_w_train := PyInt (- 1)\<rparr>)
           (Inr ()) a0 p0 True w0 = (Inl e, w0))"
proof -
  have k: "\<exists>e. BaggingDelaySimulationWrapper_query budget_strategy (memo_classifier 2)
           counting_generator (cfg0\<lparr>cfg_K := PyInt 0\<rparr>) (Inr ()) a0 p0 True w0
         = (Inl e, w0\<lparr>clf' := Some (Some ([10, 20, 30], [Some 0, None, Some 1],
                                              Some [Num 1, Num 1, Num 1])),
                        random_state' := 1\<rparr>)"
    using config_error_raised_by_validation[OF validate_a0,
        where cfg = "cfg0\<lparr>cfg_K := PyInt 0\<rparr>" and cl = "memo_classifier 2"
        and rs = counting_generator and bs = budget_strategy and p = p0 and simulate = True
        and self = w0]
      validate_clf_w0[of "cfg0\<lparr>cfg_K := PyInt 0\<rparr>"]
    by (simp add: cfg0_def)
  have w: "\<exists>e. ForgettingWrapper_query budget_strategy (cfg0\<lparr>cfg_w_train := PyInt (- 1)\<rparr>)
           (Inr ()) a0 p0 True w0 = (Inl e, w0)"
    using config_error_raised_by_validation[OF validate_a0,
        where cfg = "cfg0\<lparr>cfg_w_train := PyInt (- 1)\<rparr>" and cl = "memo_classifier 2"
        and rs = counting_generator and bs = budget_strategy and p = p0 and simulate = True
        and self = w0]
    by (simp add: cfg0_def)
  from k w show ?thesis by simp
qed

text \<open>
  Claim C7 as stated fails: with \<open>K = 0\<close> the call raises \<open>ValueError\<close>, but only after
  \<open>_validate_clf\<close> has drawn a seed from the generator and replaced the fitted classifier
  \<open>clf_\<close> by a new one fitted on the arguments of the failing call.
\<close>

theorem config_error_state_counterexample:
  "BaggingDelaySimulationWrapper_query budget_strategy (memo_classifier 2) counting_generator
       (cfg0\<lparr>cfg_K := PyInt 0\<rparr>) (Inr ()) a0 p0 True w0
     = (Inl ValueError,
        w0\<lparr>clf' := Some (Some ([10, 20, 30], [Some 0, None, Some 1], Some [Num 1, Num 1, Num 1])),
           random_state' := 1\<rparr>)
   \<and> clf' (w0\<lparr>clf' := Some (Some ([10, 20, 30], [Some 0, None, Some 1],
                                    Some [Num 1, Num 1, Num 1])),
              random_state' := 1\<rparr>) \<noteq> clf' w0
   \<and> validate_K (PyInt 0) = Inl ValueError"
proof -
  have v: "validate_clf (memo_classifier 2) counting_generator (cfg0\<lparr>cfg_K := PyInt 0\<rparr>)
       (q_X p0) (q_y p0) (q_sample_weight p0) (length (al_shape (r_y a0))) w0
     = (Inr (), w0\<lparr>clf' := Some (Some ([10, 20, 30], [Some 0, None, Some 1],
                                          Some [Num 1, Num 1, Num 1])),
                    random_state' := 1\<rparr>)"
    by (rule validate_clf_w0) (simp add: cfg0_def)
  have dp: "validate_delay_prior (cfg_delay_prior cfg0) = Inr ()"
    by (simp add: validate_delay_prior_def cfg0_def)
  have kk: "validate_K (PyInt 0) = Inl ValueError"
    by (simp add: validate_K_def)
  have q: "BaggingDelaySimulationWrapper_query budget_strategy (memo_classifier 2) counting_generator
       (cfg0\<lparr>cfg_K := PyInt 0\<rparr>) (Inr ()) a0 p0 True w0
     = (Inl ValueError,
        w0\<lparr>clf' := Some (Some ([10, 20, 30], [Some 0, None, Some 1], Some [Num 1, Num 1, Num 1])),
           random_state' := 1\<rparr>)"
    by (simp add: BaggingDelaySimulationWrapper_query_def bagging_validate_data_def validate_a0
        v dp kk)
  show ?thesis using q kk by (simp add: w0_def)
qed


section \<open>Properties of the BADGE batch strategy\<close>

lemma sqrt_9: "sqrt 9 = 3"
proof -
  have "sqrt 9 = sqrt (3\<^sup>2)" by simp
  also have "\<dots> = 3" by (simp only: real_sqrt_abs abs_numeral)
  finally show ?thesis .
qed

lemma g_x_one_class: "gradient_embedding [[1], [1]] [[1], [2]] = [[0], [0]]"
  by (simp add: gradient_embedding_def)

lemma g_x_undecided:
  "gradient_embedding [[1/2, 1/2], [1/2, 1/2], [1/2, 1/2]] [[0], [-4], [-6]] = [[0], [2], [3]]"
  by (simp add: gradient_embedding_def)

lemma min_distances_first: "min_distances [[0], [2], [3]] [[0]] = [0, 2, 3]"
  by (simp add: min_distances_def euclidean_def sqrt_9)

lemma d_probability_round1:
  "d_probability [[0], [2], [3]] [0] (Some [1, 1, 1]) = Inr ([0, 1/2, 1/2], False)"
  by (simp add: d_probability_def index_def min_distances_first np_minimum_def)

lemma nearest_round1: "nearest_selected_probability [[0], [2], [3]] [0] = [0, 4/13, 9/13]"
  by (simp add: nearest_selected_probability_def min_distances_first)

lemma min_distances_zero: "min_distances [[0], [0]] [[0]] = [0, 0]"
  by (simp add: min_distances_def euclidean_def)

lemma d_probability_zero:
  "d_probability [[0], [0]] [0] (Some [1, 1]) = Inr ([1, 1], True)"
  by (simp add: d_probability_def index_def min_distances_zero np_minimum_def)

lemma d_probability_start: "d_probability g_x [] None = Inr (replicate (length g_x) 1, True)"
  by (simp add: d_probability_def)


lemma unlabeled_two: "unlabeled_indices [None, None] = [0, 1]"
  by (simp add: unlabeled_indices_def)

lemma unlabeled_three: "unlabeled_indices [None, None, None] = [0, 1, 2]"
  by (simp add: unlabeled_indices_def)

lemma badge_round0_one_class:
  "badge_round counting_generator [[0], [0]] [0, 1] 2 0 ([], 0, [], r)
     = Inr ([Some 1, Some 1], [[1, 1]], 0, [0], Suc r)"
  by (simp add: badge_round_def d_probability_start fancy_assign_def counting_generator_def
      index_def eval_nat_numeral)

lemma badge_round1_one_class:
  "badge_round counting_generator [[0], [0]] [0, 1] 2 (Suc 0) ([[1, 1]], 0, [0], r)
     = Inr ([None, Some 1], [[1, 1], [1, 1]], 0, [0, 0], Suc r)"
  by (simp add: badge_round_def d_probability_zero fancy_assign_def counting_generator_def
      index_def eval_nat_numeral)

lemma badge_loop_one_class:
  "badge_loop counting_generator [[0], [0]] [0, 1] 2 0 (Suc (Suc 0)) ([], 0, [], 0)
     = Inr ([[Some 1, Some 1], [None, Some 1]], [0, 0], Suc (Suc 0))"
  by (simp only: badge_loop.simps badge_round0_one_class badge_round1_one_class ebind_Inr
      prod.case)

lemma transform_two:
  "transform_candidates CandNone [[1], [2]] [None, None] = Inr ([[1], [2]], Some [0, 1])"
  by (simp add: transform_candidates_def unlabeled_two index_def)

text \<open>
  Claim C2 (the code departs from it). Two unlabeled samples and a classifier that knows a
  single class: every gradient embedding is the zero vector, so both rounds of a batch of
  two are uniform draws by \<open>random_state_.choice(len(g_x))\<close> over all unlabeled samples, the
  one selected in the first round included. With a generator whose two draws are \<open>0\<close> the
  call returns the index \<open>0\<close> twice, although the utilities of the second round mark it as
  taken.
\<close>

theorem badge_query_repeats:
  "badge_query one_class_clf counting_generator [[1], [2]] [None, None] CandNone 2 False 0
     = Inr (([0, 0], [[Some 1, Some 1], [None, Some 1]]), 2)"
proof -
  have p: "predict_proba one_class_clf (fit_pool one_class_clf [[1], [2]] [None, None]) [[1], [2]]
             = [[1], [1]]"
    by (simp add: one_class_clf_def)
  have n: "length [[1], [2::real]] = 2" by simp
  have "badge_query one_class_clf counting_generator [[1], [2]] [None, None] CandNone
          (Suc (Suc 0)) False 0
        = Inr (([0, 0], [[Some 1, Some 1], [None, Some 1]]), Suc (Suc 0))"
    by (simp only: badge_query_def transform_two ebind_Inr prod.case Let_def candidates.case
        option.sel p g_x_one_class if_False if_True n option.distinct not_False_eq_True
        badge_loop_one_class)
  then show ?thesis by (simp add: numeral_2_eq_2)
qed

lemma first_positive_round1: "first_positive [Num 0, Num (1/2), Num (1/2)] = 1"
  by (simp add: first_positive_def)

lemma badge_round0_undecided:
  "badge_round counting_generator [[0], [2], [3]] [0, 1, 2] 3 0 ([], 0, [], r)
     = Inr ([Some 1, Some 1, Some 1], [[1, 1, 1]], 0, [0], Suc r)"
  by (simp add: badge_round_def d_probability_start fancy_assign_def counting_generator_def
      index_def eval_nat_numeral)

lemma badge_round1_undecided:
  "badge_round counting_generator [[0], [2], [3]] [0, 1, 2] 3 (Suc 0) ([[1, 1, 1]], 0, [0], r)
     = Inr ([None, Some (1/2), Some (1/2)], [[1, 1, 1], [0, 1/2, 1/2]], 1, [0, 1], Suc r)"
  by (simp add: badge_round_def d_probability_round1 fancy_assign_def counting_generator_def
      index_def first_positive_round1 eval_nat_numeral)

lemma badge_loop_undecided:
  "badge_loop counting_generator [[0], [2], [3]] [0, 1, 2] 3 0 (Suc (Suc 0)) ([], 0, [], 0)
     = Inr ([[Some 1, Some 1, Some 1], [None, Some (1/2), Some (1/2)]], [0, 1], Suc (Suc 0))"
  by (simp only: badge_loop.simps badge_round0_undecided badge_round1_undecided ebind_Inr
      prod.case)

lemma transform_three:
  "transform_candidates CandNone [[0], [-4], [-6]] [None, None, None]
     = Inr ([[0], [-4], [-6]], Some [0, 1, 2])"
  by (simp add: transform_candidates_def unlabeled_three index_def)

text \<open>
  Claim C3 (the code departs from it). Three unlabeled samples with the embeddings \<open>0\<close>,
  \<open>2\<close> and \<open>3\<close>, the first selected in round \<open>0\<close>. In round \<open>1\<close> the loop passes \<open>D_p[0]\<close>,
  the vector of ones that round \<open>0\<close> returned as its probabilities, as \<open>d_latest\<close>; the
  distances \<open>0, 2, 3\<close> to the selected sample are cut to \<open>0, 1, 1\<close>, and the draw uses
  \<open>0, 1/2, 1/2\<close>. The squared distances to the nearest selected sample, normalised, are
  \<open>0, 4/13, 9/13\<close>.
\<close>

theorem badge_round1_not_nearest:
  "badge_query undecided_clf counting_generator [[0], [-4], [-6]] [None, None, None] CandNone
       2 False 0
     = Inr (([0, 1], [[Some 1, Some 1, Some 1], [None, Some (1/2), Some (1/2)]]), 2)
   \<and> d_probability [[0], [2], [3]] [0] (Some [1, 1, 1]) = Inr ([0, 1/2, 1/2], False)
   \<and> nearest_selected_probability [[0], [2], [3]] [0] = [0, 4/13, 9/13]"
proof -
  have p: "predict_proba undecided_clf (fit_pool undecided_clf [[0], [-4], [-6]] [None, None, None])
             [[0], [-4], [-6]] = [[1/2, 1/2], [1/2, 1/2], [1/2, 1/2]]"
    by (simp add: undecided_clf_def)
  have n: "length [[0], [-4], [-6::real]] = 3" by simp
  have q: "badge_query undecided_clf counting_generator [[0], [-4], [-6]] [None, None, None] CandNone
       (Suc (Suc 0)) False 0
     = Inr (([0, 1], [[Some 1, Some 1, Some 1], [None, Some (1/2), Some (1/2)]]), Suc (Suc 0))"
    by (simp only: badge_query_def transform_three ebind_Inr prod.case Let_def candidates.case
        option.sel p g_x_undecided if_False if_True n option.distinct not_False_eq_True
        badge_loop_undecided)
  show ?thesis using q d_probability_round1 nearest_round1 by (simp add: numeral_2_eq_2)
qed


end
